theory Spec2Isabelle
  imports Complex_Main
begin

section \<open>Values, terminal and store of the budget tracker\<close>

text \<open>
  The program \<^verbatim>\<open>budget_tracker.py\<close> keeps six SQLite tables and talks to the user
  through \<^verbatim>\<open>input\<close> and \<^verbatim>\<open>print\<close>. The model makes both explicit: a \<open>world\<close>
  holds the database, the lines still to be typed and the lines printed so far.

  Amounts are Python floats stored in REAL columns: IEEE 754 binary64 numbers. A
  \<open>double\<close> is such a number, given by its exact rational value, or an infinity, or
  not a number. The two zeros are one value, and the text that the format \<^verbatim>\<open>:.2f\<close>
  makes of a number is not modelled: a printed line carries the number itself.
\<close>

datatype double = Finite rat | PosInf | NegInf | NaN

text \<open>
  What a column of INTEGER affinity (\<^verbatim>\<open>category_id\<close>) can hold: NULL, an integer, a
  real number that is no integer of 64 bits, or a text that is no number.
\<close>

datatype int_column = Null_id | Int_id int | Real_id double | Text_id string

text \<open>
  What a column of REAL affinity holds: NULL, a real number, or a text that is no
  number. The amount columns are written only with floats, so they hold NULL (Python's
  \<^verbatim>\<open>None\<close>) or a number and are modelled as \<open>double option\<close>; target and progress of a
  goal can be overwritten with raw text.
\<close>

datatype real_column = Null | Real double | Real_text string

datatype table =
  Expense_category | Expenses | Income_category | Income | Budgets | Financial_goals

text \<open>Column names, as the strings of the \<^verbatim>\<open>fields\<close> lists of the update actions.\<close>

datatype column = Category_id | Amount | Description | Target | Progress

datatype exn =
    EOFError            \<comment> \<open>\<^verbatim>\<open>input\<close> at the end of the typed lines\<close>
  | TypeError           \<comment> \<open>adding, unpacking or formatting \<^verbatim>\<open>None\<close>\<close>
  | ValueError          \<comment> \<open>format \<^verbatim>\<open>:.2f\<close> applied to a string\<close>
  | OperationalError    \<comment> \<open>SQLite: wrong number of values, or no such column\<close>
  | Outside_model       \<comment> \<open>a text that is no number written to an amount column, or a
                            float written to a text column; no caller of
                            \<^verbatim>\<open>perform_update\<close> does either\<close>

text \<open>
  One constructor for each \<^verbatim>\<open>print\<close> statement of the functions modelled below. The
  prompt that \<^verbatim>\<open>input\<close> writes is not recorded.
\<close>

datatype line =
    Border                       \<comment> \<open>\<^verbatim>\<open>print("\n", "-"*10, "\n")\<close>\<close>
  | Short_border                 \<comment> \<open>\<^verbatim>\<open>print("-"*10, "\n")\<close>\<close>
  | Invalid_integer              \<comment> \<open>Invalid input. Please enter a valid integer.\<close>
  | Invalid_range "int list"     \<comment> \<open>Invalid input. Please select from the list: ...\<close>
  | Invalid_amount               \<comment> \<open>Invalid input. Please enter amount in numerals.\<close>
  | Too_many_attempts            \<comment> \<open>Too many invalid attempts. Please try again later.\<close>
  | Category_exists              \<comment> \<open>This category already exists.\<close>
  | Category_added string table  \<comment> \<open>Category '...' added successfully to '...'.\<close>
  | Record_added table           \<comment> \<open>Record added to ... .\<close>
  | Record_deleted table         \<comment> \<open>Record deleted from ... .\<close>
  | Which_field                  \<comment> \<open>Which field would you like to update?\<close>
  | Field_option nat column      \<comment> \<open>\<^verbatim>\<open>{i + 1}. {field}\<close>\<close>
  | Invalid_selection            \<comment> \<open>Invalid selection.\<close>
  | Field_updated column         \<comment> \<open>... updated successfully.\<close>
  | No_valid_categories          \<comment> \<open>No valid categories available.\<close>
  | No_valid_categories_add      \<comment> \<open>No valid categories available. Please add a category first.\<close>
  | Expenses_heading             \<comment> \<open>CURRENT EXPENSES:\<close>
  | Income_heading               \<comment> \<open>CURRENT INCOME:\<close>
  | Transaction_table "(int \<times> string \<times> double option) list"
                                 \<comment> \<open>\<^verbatim>\<open>tabulate\<close>, headers ID, Category, Amount\<close>
  | Total_expenses double        \<comment> \<open>Total Expenses: ...\<close>
  | Total_income double          \<comment> \<open>Total Income: ...\<close>
  | No_expenses                  \<comment> \<open>No expenses have been entered.\<close>
  | No_income                    \<comment> \<open>No income records have been entered.\<close>
  | Expense_categories_heading   \<comment> \<open>EXPENSE CATEGORIES:\<close>
  | Income_categories_heading    \<comment> \<open>INCOME CATEGORIES:\<close>
  | Category_table "(int \<times> string) list"
                                 \<comment> \<open>\<^verbatim>\<open>tabulate\<close>, headers ID, Name\<close>
  | No_expense_categories        \<comment> \<open>No expense categories have been entered.\<close>
  | No_income_categories         \<comment> \<open>No income categories have been entered.\<close>
  | Amount_table "double option list"  \<comment> \<open>\<^verbatim>\<open>tabulate\<close>, header Amount\<close>
  | Total_expenses_in_category double  \<comment> \<open>Total Expenses in Category: ...\<close>
  | Total_income_in_category double    \<comment> \<open>Total Income in Category: ...\<close>
  | Current_overall_budget double      \<comment> \<open>Current Overall Budget: ...\<close>
  | Budget_exists int            \<comment> \<open>Budget for category ID ... already exists.\<close>
  | Budgets_heading              \<comment> \<open>CURRENT BUDGETS:\<close>
  | Budget_table "(int \<times> int_column \<times> double option) list"
                                 \<comment> \<open>\<^verbatim>\<open>tabulate\<close>, headers ID, Category, Amount\<close>
  | No_budgets                   \<comment> \<open>No category budgets have been created.\<close>
  | Details_for_budget int       \<comment> \<open>Details for Budget ID ...:\<close>
  | Budget_amount double         \<comment> \<open>Budget Amount: ...\<close>
  | Total_spent double           \<comment> \<open>Total Spent: ...\<close>
  | Over_budget double           \<comment> \<open>Expenditure is ... over budget.\<close>
  | Within_budget                \<comment> \<open>Expenditure is within the budget.\<close>
  | No_budget_found              \<comment> \<open>No budget found with the given ID.\<close>
  | Goal_exists                  \<comment> \<open>The goal you are trying to set already exists.\<close>
  | Goals_heading                \<comment> \<open>CURRENT FINANCIAL GOALS:\<close>
  | Goal_table "(int \<times> string) list"
                                 \<comment> \<open>\<^verbatim>\<open>tabulate\<close>, headers ID, Description\<close>
  | No_goals                     \<comment> \<open>No goals have been created.\<close>
  | Goal_description string      \<comment> \<open>Goal: ...\<close>
  | Target_amount double         \<comment> \<open>Target Amount: ...\<close>
  | Current_progress double      \<comment> \<open>Current Progress: ...\<close>
  | Target_reached               \<comment> \<open>You have reached your saving target!\<close>
  | Short_of_target double       \<comment> \<open>You are ... short of your target.\<close>

text \<open>
  The tables of \<^verbatim>\<open>create_database\<close>, each a list of rows in rowid order with the id
  first. \<open>sqlite_sequence\<close> is the counter SQLite keeps for an AUTOINCREMENT key: the
  largest id the table has ever held.
\<close>

record store =
  expense_category :: "(int \<times> string) list"
  expenses :: "(int \<times> int_column \<times> double option) list"
  income_category :: "(int \<times> string) list"
  income :: "(int \<times> int_column \<times> double option) list"
  budgets :: "(int \<times> int_column \<times> double option) list"
  financial_goals :: "(int \<times> string \<times> real_column \<times> real_column) list"
  sqlite_sequence :: "table \<Rightarrow> int"

record world =
  db :: store
  stdin :: "string list"
  stdout :: "line list"

text \<open>What a listing function returns: a list of ids, or Python's \<^verbatim>\<open>None\<close>.\<close>

datatype retval = PyNone | PyList "int list"

text \<open>
  How a call ends: it returns a value, or an exception leaves it; either way with the
  world as it then is. No function of the program catches an exception other than the
  \<^verbatim>\<open>ValueError\<close> of a failed \<^verbatim>\<open>int\<close> or \<^verbatim>\<open>float\<close>, so an exception ends the program.
\<close>

datatype 'a outcome = Returns 'a world | Raises exn world

section \<open>Double precision arithmetic\<close>

text \<open>
  \<open>round_double\<close> takes an exact value to the nearest binary64 number, a tie to the one
  with the even significand: 53 bits, exponents down to the subnormal \<open>2^-1074\<close>, and
  infinity from \<open>2^1024\<close> on. Python's float arithmetic and SQLite's are both this.
\<close>

definition pow2 :: "int \<Rightarrow> rat" where
  "pow2 k = (if 0 \<le> k then 2 ^ nat k else 1 / 2 ^ nat (- k))"

text \<open>The number of binary digits of a positive integer.\<close>

function bits :: "int \<Rightarrow> int" where
  "bits n = (if n \<le> 0 then 0 else bits (n div 2) + 1)"
  by pat_completeness auto
termination
  by (relation "measure nat") auto

declare bits.simps [simp del]

text \<open>The largest \<open>k\<close> with \<open>2^k \<le> x\<close>, for a positive \<open>x\<close>.\<close>

definition floor_log2 :: "rat \<Rightarrow> int" where
  "floor_log2 x = (if 1 \<le> x then bits \<lfloor>x\<rfloor> - 1 else - bits (\<lceil>1 / x\<rceil> - 1))"

definition round_half_even :: "rat \<Rightarrow> int" where
  "round_half_even x =
     (let f = \<lfloor>x\<rfloor>; d = x - of_int f
      in if d < 1 / 2 then f
         else if 1 / 2 < d then f + 1
         else if even f then f else f + 1)"

definition round_double :: "rat \<Rightarrow> double" where
  "round_double x =
     (if x = 0 then Finite 0
      else
        let a = \<bar>x\<bar>;
            e = max (floor_log2 a - 52) (- 1074);
            m = round_half_even (a / pow2 e)
        in if 1025 \<le> bits m + e then (if 0 < x then PosInf else NegInf)
           else Finite (if 0 < x then of_int m * pow2 e else - (of_int m * pow2 e)))"

text \<open>A rational number that is a binary64 number.\<close>

definition is_double :: "rat \<Rightarrow> bool" where
  "is_double x = (round_double x = Finite x)"

fun dneg :: "double \<Rightarrow> double" where
  "dneg (Finite a) = Finite (- a)"
| "dneg PosInf = NegInf"
| "dneg NegInf = PosInf"
| "dneg NaN = NaN"

fun dabs :: "double \<Rightarrow> double" where
  "dabs (Finite a) = Finite \<bar>a\<bar>"
| "dabs PosInf = PosInf"
| "dabs NegInf = PosInf"
| "dabs NaN = NaN"

fun dadd :: "double \<Rightarrow> double \<Rightarrow> double" where
  "dadd (Finite a) (Finite b) = round_double (a + b)"
| "dadd NaN y = NaN"
| "dadd x NaN = NaN"
| "dadd PosInf NegInf = NaN"
| "dadd NegInf PosInf = NaN"
| "dadd PosInf y = PosInf"
| "dadd NegInf y = NegInf"
| "dadd x PosInf = PosInf"
| "dadd x NegInf = NegInf"

definition dsub :: "double \<Rightarrow> double \<Rightarrow> double" where
  "dsub x y = dadd x (dneg y)"

text \<open>\<open>x < y\<close> and \<open>x \<le> y\<close> on doubles; every comparison with not-a-number is false.\<close>

fun dless :: "double \<Rightarrow> double \<Rightarrow> bool" where
  "dless NaN y = False"
| "dless x NaN = False"
| "dless (Finite a) (Finite b) = (a < b)"
| "dless x NegInf = False"
| "dless PosInf y = False"
| "dless x PosInf = True"
| "dless NegInf y = True"

definition dle :: "double \<Rightarrow> double \<Rightarrow> bool" where
  "dle x y = (dless x y \<or> (x = y \<and> x \<noteq> NaN))"

definition is_overflow :: "double \<Rightarrow> bool" where
  "is_overflow x = (x = PosInf \<or> x = NegInf \<or> x = NaN)"

text \<open>
  Python's \<^verbatim>\<open>sum\<close> over the values read from an amount column. CPython up to 3.11
  adds the floats from left to right, starting at 0; \<^verbatim>\<open>None\<close> cannot be added.
\<close>

fun py_sum_from :: "double \<Rightarrow> double option list \<Rightarrow> exn + double" where
  "py_sum_from acc [] = Inr acc"
| "py_sum_from acc (None # xs) = Inl TypeError"
| "py_sum_from acc (Some x # xs) = py_sum_from (dadd acc x) xs"

definition py_sum :: "double option list \<Rightarrow> exn + double" where
  "py_sum xs = py_sum_from (Finite 0) xs"

text \<open>
  SQL \<^verbatim>\<open>SUM\<close> over a REAL column, as SQLite computes it from version 3.44 on
  (\<^verbatim>\<open>sumStep\<close>, \<^verbatim>\<open>sumFinalize\<close>): NULL is skipped, and the result is NULL when nothing
  is left. The numbers are added from the first row on with the correction term of
  Kahan, Babuska and Neumaier, which is added at the end unless it is infinite or not
  a number. A result that is not a number is returned as NULL.
\<close>

definition present :: "'a option list \<Rightarrow> 'a list" where
  "present vs = concat (map (\<lambda>v. case v of None \<Rightarrow> [] | Some a \<Rightarrow> [a]) vs)"

definition kbn_step :: "double \<times> double \<Rightarrow> double \<Rightarrow> double \<times> double" where
  "kbn_step acc r =
     (let s = fst acc; t = dadd s r
      in (t, dadd (snd acc)
               (if dless (dabs r) (dabs s) then dadd (dsub s t) r else dadd (dsub r t) s)))"

definition sql_sum :: "double option list \<Rightarrow> double option" where
  "sql_sum vs =
     (if present vs = [] then None
      else
        let acc = foldl kbn_step (Finite 0, Finite 0) (present vs);
            total = (if is_overflow (snd acc) then fst acc else dadd (fst acc) (snd acc))
        in if total = NaN then None else Some total)"

text \<open>\<^verbatim>\<open>IFNULL(x, 0)\<close>, and Python's \<^verbatim>\<open>x or 0\<close>, which also replaces 0.0 by 0.\<close>

definition ifnull :: "double option \<Rightarrow> double \<Rightarrow> double" where
  "ifnull v d = (case v of None \<Rightarrow> d | Some a \<Rightarrow> a)"


text \<open>A float bound to a statement: SQLite stores not-a-number as NULL.\<close>

definition bind_float :: "double \<Rightarrow> double option" where
  "bind_float d = (if d = NaN then None else Some d)"

section \<open>Python and SQLite built-ins on text\<close>

text \<open>
  \<^verbatim>\<open>int\<close>, \<^verbatim>\<open>float\<close> and \<^verbatim>\<open>str.title\<close> on ASCII text. Python takes white space
  around a number, a sign, and single underscores between digits; \<^verbatim>\<open>float\<close> also
  takes a fraction, an exponent, and the words for infinity and not-a-number in any
  case, and returns the nearest double. Characters outside ASCII are not modelled.
\<close>

definition is_space :: "char \<Rightarrow> bool" where
  "is_space c = (of_char c \<in> {9, 10, 11, 12, 13, 32 :: nat})"

definition is_digit :: "char \<Rightarrow> bool" where
  "is_digit c = (48 \<le> (of_char c :: nat) \<and> (of_char c :: nat) \<le> 57)"

definition is_upper :: "char \<Rightarrow> bool" where
  "is_upper c = (65 \<le> (of_char c :: nat) \<and> (of_char c :: nat) \<le> 90)"

definition is_lower :: "char \<Rightarrow> bool" where
  "is_lower c = (97 \<le> (of_char c :: nat) \<and> (of_char c :: nat) \<le> 122)"

definition to_upper :: "char \<Rightarrow> char" where
  "to_upper c = (if is_lower c then char_of (of_char c - 32 :: nat) else c)"

definition to_lower :: "char \<Rightarrow> char" where
  "to_lower c = (if is_upper c then char_of (of_char c + 32 :: nat) else c)"

definition strip :: "string \<Rightarrow> string" where
  "strip s = rev (dropWhile is_space (rev (dropWhile is_space s)))"

definition digits_value :: "string \<Rightarrow> int" where
  "digits_value ds = foldl (\<lambda>n c. 10 * n + (of_char c - 48)) 0 (filter is_digit ds)"

text \<open>
  A run of digits: plain for SQLite, with single underscores inside for Python.
\<close>

definition plain_digits :: "string \<Rightarrow> bool" where
  "plain_digits ds = (ds \<noteq> [] \<and> list_all is_digit ds)"

fun digitpart :: "string \<Rightarrow> bool" where
  "digitpart [] = False"
| "digitpart [c] = is_digit c"
| "digitpart (c # d # cs) =
     (is_digit c \<and> (if d = CHR ''_'' then digitpart cs else digitpart (d # cs)))"

definition with_sign :: "(string \<Rightarrow> 'a option) \<Rightarrow> ('a \<Rightarrow> 'a) \<Rightarrow> string \<Rightarrow> 'a option" where
  "with_sign f negate s =
     (case s of
        [] \<Rightarrow> None
      | c # cs \<Rightarrow>
          if c = CHR ''-'' then map_option negate (f cs)
          else if c = CHR ''+'' then f cs
          else f s)"

definition unsigned_int :: "(string \<Rightarrow> bool) \<Rightarrow> string \<Rightarrow> int option" where
  "unsigned_int run ds = (if run ds then Some (digits_value ds) else None)"

definition signed_int :: "(string \<Rightarrow> bool) \<Rightarrow> string \<Rightarrow> int option" where
  "signed_int run s = with_sign (unsigned_int run) uminus s"

text \<open>
  \<^verbatim>\<open>int\<close> of a text. CPython 3.11 refuses, with the same \<^verbatim>\<open>ValueError\<close>, a text of
  more than 4300 digits.
\<close>

definition py_int :: "string \<Rightarrow> int option" where
  "py_int s =
     (if 4300 < length (filter is_digit s) then None else signed_int digitpart (strip s))"

definition pow10 :: "int \<Rightarrow> rat" where
  "pow10 k = (if 0 \<le> k then 10 ^ nat k else 1 / 10 ^ nat (- k))"

definition mantissa :: "(string \<Rightarrow> bool) \<Rightarrow> string \<Rightarrow> rat option" where
  "mantissa run m =
     (let ip = takeWhile (\<lambda>c. c \<noteq> CHR ''.'') m;
          fp = drop (length ip + 1) m
      in if length ip = length m
         then (if run ip then Some (of_int (digits_value ip)) else None)
         else if (ip = [] \<or> run ip) \<and> (fp = [] \<or> run fp) \<and> ip @ fp \<noteq> []
         then Some (of_int (digits_value (ip @ fp)) / 10 ^ length (filter is_digit fp))
         else None)"

definition unsigned_float :: "(string \<Rightarrow> bool) \<Rightarrow> string \<Rightarrow> rat option" where
  "unsigned_float run s =
     (let m = takeWhile (\<lambda>c. c \<noteq> CHR ''e'' \<and> c \<noteq> CHR ''E'') s
      in if length m = length s then mantissa run m
         else case (mantissa run m, signed_int run (drop (length m + 1) s)) of
                (Some q, Some e) \<Rightarrow> Some (q * pow10 e)
              | _ \<Rightarrow> None)"

definition decimal_literal :: "(string \<Rightarrow> bool) \<Rightarrow> string \<Rightarrow> rat option" where
  "decimal_literal run s = with_sign (unsigned_float run) uminus (strip s)"

definition special_float :: "string \<Rightarrow> double option" where
  "special_float s =
     (let t = strip s;
          negative = (t \<noteq> [] \<and> hd t = CHR ''-'');
          word = map to_lower (if t \<noteq> [] \<and> (hd t = CHR ''-'' \<or> hd t = CHR ''+'') then tl t else t)
      in if word = ''inf'' \<or> word = ''infinity'' then Some (if negative then NegInf else PosInf)
         else if word = ''nan'' then Some NaN
         else None)"

definition py_float :: "string \<Rightarrow> double option" where
  "py_float s =
     (case special_float s of
        Some d \<Rightarrow> Some d
      | None \<Rightarrow> map_option round_double (decimal_literal digitpart s))"

text \<open>
  What SQLite keeps when a text is written to a column. A text that is a decimal literal
  becomes a number, any other text stays. Under INTEGER affinity an integer of 64 bits
  stays exact, and a real value that is such an integer becomes one; under REAL
  affinity every number is a double. The model takes the nearest double; SQLite's own
  conversion of a long decimal text can be one unit in the last place off it.
\<close>

definition int64 :: "int \<Rightarrow> bool" where
  "int64 i = (- (2 ^ 63) \<le> i \<and> i < 2 ^ 63)"

definition real_to_int_column :: "double \<Rightarrow> int_column" where
  "real_to_int_column d =
     (case d of
        Finite r \<Rightarrow>
          if r = of_int \<lfloor>r\<rfloor> \<and> - (2 ^ 63) < \<lfloor>r\<rfloor> \<and> \<lfloor>r\<rfloor> < 2 ^ 63 - 1
          then Int_id \<lfloor>r\<rfloor> else Real_id d
      | NaN \<Rightarrow> Null_id
      | _ \<Rightarrow> Real_id d)"

definition integer_affinity :: "string \<Rightarrow> int_column" where
  "integer_affinity s =
     (case decimal_literal plain_digits s of
        None \<Rightarrow> Text_id s
      | Some q \<Rightarrow>
          (case signed_int plain_digits (strip s) of
             Some i \<Rightarrow> if int64 i then Int_id i else real_to_int_column (round_double q)
           | None \<Rightarrow> real_to_int_column (round_double q)))"

definition real_affinity :: "string \<Rightarrow> real_column" where
  "real_affinity s =
     (case decimal_literal plain_digits s of
        None \<Rightarrow> Real_text s
      | Some q \<Rightarrow> Real (round_double q))"

text \<open>
  \<^verbatim>\<open>str.title\<close>: a letter that follows a letter is lowered, any other letter is
  raised.
\<close>

fun title_from :: "bool \<Rightarrow> string \<Rightarrow> string" where
  "title_from prev [] = []"
| "title_from prev (c # cs) =
     (if is_lower c \<or> is_upper c
      then (if prev then to_lower c else to_upper c) # title_from True cs
      else c # title_from False cs)"

definition title :: "string \<Rightarrow> string" where
  "title s = title_from False s"

section \<open>Terminal input and output\<close>

definition print :: "line \<Rightarrow> world \<Rightarrow> world" where
  "print l w = w\<lparr>stdout := stdout w @ [l]\<rparr>"

definition prints :: "line list \<Rightarrow> world \<Rightarrow> world" where
  "prints ls w = w\<lparr>stdout := stdout w @ ls\<rparr>"

definition input :: "world \<Rightarrow> string outcome" where
  "input w = (case stdin w of [] \<Rightarrow> Raises EOFError w | l # ls \<Rightarrow> Returns l (w\<lparr>stdin := ls\<rparr>))"

text \<open>Sequencing: an exception of the first step ends the action.\<close>

definition and_then :: "'a outcome \<Rightarrow> ('a \<Rightarrow> world \<Rightarrow> 'b outcome) \<Rightarrow> 'b outcome" where
  "and_then r f = (case r of Raises e w \<Rightarrow> Raises e w | Returns v w \<Rightarrow> f v w)"

text \<open>
  \<^verbatim>\<open>validate_int_input\<close>: \<^verbatim>\<open>while True\<close> around \<^verbatim>\<open>int(input(prompt))\<close>. Every
  round reads one line, so on the finite list of typed lines the loop ends, with
  \<^verbatim>\<open>EOFError\<close> when the lines run out.
\<close>

function validate_int_input :: "world \<Rightarrow> int outcome" where
  "validate_int_input w =
     (case input w of
        Raises e w1 \<Rightarrow> Raises e w1
      | Returns l w1 \<Rightarrow>
          (case py_int l of
             Some v \<Rightarrow> Returns v w1
           | None \<Rightarrow> validate_int_input (print Invalid_integer w1)))"
  by pat_completeness auto
termination
  by (relation "measure (\<lambda>w. length (stdin w))") (auto simp: print_def input_def split: list.splits)

function validate_float_input :: "world \<Rightarrow> double outcome" where
  "validate_float_input w =
     (case input w of
        Raises e w1 \<Rightarrow> Raises e w1
      | Returns l w1 \<Rightarrow>
          (case py_float l of
             Some v \<Rightarrow> Returns v w1
           | None \<Rightarrow> validate_float_input (print Invalid_amount w1)))"
  by pat_completeness auto
termination
  by (relation "measure (\<lambda>w. length (stdin w))") (auto simp: print_def input_def split: list.splits)

definition validate_range :: "int \<Rightarrow> int list \<Rightarrow> world \<Rightarrow> int option \<times> world" where
  "validate_range v valid_range w =
     (if v \<in> set valid_range then (Some v, w)
      else (None, print (Invalid_range valid_range) w))"

text \<open>Truth value of a returned list: \<^verbatim>\<open>None\<close> and the empty list are false.\<close>

fun truthy :: "retval \<Rightarrow> bool" where
  "truthy PyNone = False"
| "truthy (PyList ids) = (ids \<noteq> [])"

fun id_list :: "retval \<Rightarrow> int list" where
  "id_list PyNone = []"
| "id_list (PyList ids) = ids"

section \<open>Database helpers\<close>

text \<open>
  The id an AUTOINCREMENT key gives to a new row: one more than the largest id the
  table holds or has ever held.
\<close>

definition next_id :: "table \<Rightarrow> int list \<Rightarrow> store \<Rightarrow> int" where
  "next_id t ids s = fold max ids (sqlite_sequence s t) + 1"

definition bump :: "table \<Rightarrow> int \<Rightarrow> store \<Rightarrow> store" where
  "bump t i s = s\<lparr>sqlite_sequence := (sqlite_sequence s)(t := i)\<rparr>"

text \<open>
  \<^verbatim>\<open>add_category(table, name, unique_message)\<close>. The statement names the column
  \<^verbatim>\<open>name\<close>, which only the two category tables have.
\<close>

definition add_category :: "table \<Rightarrow> string \<Rightarrow> line \<Rightarrow> world \<Rightarrow> unit outcome" where
  "add_category t name unique_message w =
     (let name = title name; s = db w in
      case t of
        Expense_category \<Rightarrow>
          if name \<in> set (map snd (expense_category s))
          then Returns () (prints [unique_message, Border] w)
          else
            let i = next_id t (map fst (expense_category s)) s in
            Returns () (prints [Category_added name t, Border]
              (w\<lparr>db := bump t i (s\<lparr>expense_category := expense_category s @ [(i, name)]\<rparr>)\<rparr>))
      | Income_category \<Rightarrow>
          if name \<in> set (map snd (income_category s))
          then Returns () (prints [unique_message, Border] w)
          else
            let i = next_id t (map fst (income_category s)) s in
            Returns () (prints [Category_added name t, Border]
              (w\<lparr>db := bump t i (s\<lparr>income_category := income_category s @ [(i, name)]\<rparr>)\<rparr>))
      | _ \<Rightarrow> Raises OperationalError w)"

text \<open>
  \<^verbatim>\<open>add_record(table, values)\<close> inserts \<^verbatim>\<open>(NULL, values...)\<close>. The program calls it
  with a pair (category id, amount) or a triple (description, target, progress); the
  number of values fits three tables in the first case and one in the second. A float
  that is not a number is stored as NULL.
\<close>

datatype record_values = Category_amount int double | Goal_values string double double

definition bind_real :: "double \<Rightarrow> real_column" where
  "bind_real d = (if d = NaN then Null else Real d)"

definition insert_row :: "table \<Rightarrow> record_values \<Rightarrow> store \<Rightarrow> exn + store" where
  "insert_row t values s =
     (case (t, values) of
        (Expenses, Category_amount c a) \<Rightarrow>
          (let i = next_id t (map fst (expenses s)) s
           in Inr (bump t i (s\<lparr>expenses := expenses s @ [(i, Int_id c, bind_float a)]\<rparr>)))
      | (Income, Category_amount c a) \<Rightarrow>
          (let i = next_id t (map fst (income s)) s
           in Inr (bump t i (s\<lparr>income := income s @ [(i, Int_id c, bind_float a)]\<rparr>)))
      | (Budgets, Category_amount c a) \<Rightarrow>
          (let i = next_id t (map fst (budgets s)) s
           in Inr (bump t i (s\<lparr>budgets := budgets s @ [(i, Int_id c, bind_float a)]\<rparr>)))
      | (Financial_goals, Goal_values d g p) \<Rightarrow>
          (let i = next_id t (map fst (financial_goals s)) s
           in Inr (bump t i
                (s\<lparr>financial_goals := financial_goals s @ [(i, d, bind_real g, bind_real p)]\<rparr>)))
      | _ \<Rightarrow> Inl OperationalError)"

definition add_record :: "table \<Rightarrow> record_values \<Rightarrow> world \<Rightarrow> unit outcome" where
  "add_record t values w =
     (case insert_row t values (db w) of
        Inl e \<Rightarrow> Raises e w
      | Inr s \<Rightarrow> Returns () (prints [Record_added t, Border] (w\<lparr>db := s\<rparr>)))"

text \<open>
  \<^verbatim>\<open>perform_update(table, field, new_value, record_id)\<close>. The new value is the float
  read by \<^verbatim>\<open>validate_float_input\<close> or the raw text read by \<^verbatim>\<open>input\<close>; the column's
  affinity decides what is kept of it.
\<close>

datatype new_value = Float_value double | Str_value string

definition to_int_column :: "new_value \<Rightarrow> int_column" where
  "to_int_column v =
     (case v of Float_value d \<Rightarrow> real_to_int_column d | Str_value s \<Rightarrow> integer_affinity s)"

definition to_real_column :: "new_value \<Rightarrow> real_column" where
  "to_real_column v = (case v of Float_value d \<Rightarrow> bind_real d | Str_value s \<Rightarrow> real_affinity s)"

definition to_amount :: "new_value \<Rightarrow> double option option" where
  "to_amount v =
     (case to_real_column v of
        Null \<Rightarrow> Some None
      | Real d \<Rightarrow> Some (Some d)
      | Real_text s \<Rightarrow> None)"

definition to_text :: "new_value \<Rightarrow> string option" where
  "to_text v = (case v of Float_value a \<Rightarrow> None | Str_value s \<Rightarrow> Some s)"

definition set_category_id ::
  "int \<Rightarrow> int_column \<Rightarrow> (int \<times> int_column \<times> double option) list
   \<Rightarrow> (int \<times> int_column \<times> double option) list" where
  "set_category_id record_id v rows =
     map (\<lambda>(i, c, a). if i = record_id then (i, v, a) else (i, c, a)) rows"

definition set_amount ::
  "int \<Rightarrow> double option \<Rightarrow> (int \<times> int_column \<times> double option) list
   \<Rightarrow> (int \<times> int_column \<times> double option) list" where
  "set_amount record_id v rows =
     map (\<lambda>(i, c, a). if i = record_id then (i, c, v) else (i, c, a)) rows"

definition update_row :: "table \<Rightarrow> column \<Rightarrow> new_value \<Rightarrow> int \<Rightarrow> store \<Rightarrow> exn + store" where
  "update_row t f v record_id s =
     (case (t, f) of
        (Expenses, Category_id) \<Rightarrow>
          Inr (s\<lparr>expenses := set_category_id record_id (to_int_column v) (expenses s)\<rparr>)
      | (Expenses, Amount) \<Rightarrow>
          (case to_amount v of
             None \<Rightarrow> Inl Outside_model
           | Some a \<Rightarrow> Inr (s\<lparr>expenses := set_amount record_id a (expenses s)\<rparr>))
      | (Income, Category_id) \<Rightarrow>
          Inr (s\<lparr>income := set_category_id record_id (to_int_column v) (income s)\<rparr>)
      | (Income, Amount) \<Rightarrow>
          (case to_amount v of
             None \<Rightarrow> Inl Outside_model
           | Some a \<Rightarrow> Inr (s\<lparr>income := set_amount record_id a (income s)\<rparr>))
      | (Budgets, Category_id) \<Rightarrow>
          Inr (s\<lparr>budgets := set_category_id record_id (to_int_column v) (budgets s)\<rparr>)
      | (Budgets, Amount) \<Rightarrow>
          (case to_amount v of
             None \<Rightarrow> Inl Outside_model
           | Some a \<Rightarrow> Inr (s\<lparr>budgets := set_amount record_id a (budgets s)\<rparr>))
      | (Financial_goals, Description) \<Rightarrow>
          (case to_text v of
             None \<Rightarrow> Inl Outside_model
           | Some d \<Rightarrow>
               Inr (s\<lparr>financial_goals :=
                      map (\<lambda>(i, d0, g, p). if i = record_id then (i, d, g, p) else (i, d0, g, p))
                        (financial_goals s)\<rparr>))
      | (Financial_goals, Target) \<Rightarrow>
          Inr (s\<lparr>financial_goals :=
                 map (\<lambda>(i, d, g, p).
                        if i = record_id then (i, d, to_real_column v, p) else (i, d, g, p))
                   (financial_goals s)\<rparr>)
      | (Financial_goals, Progress) \<Rightarrow>
          Inr (s\<lparr>financial_goals :=
                 map (\<lambda>(i, d, g, p).
                        if i = record_id then (i, d, g, to_real_column v) else (i, d, g, p))
                   (financial_goals s)\<rparr>)
      | _ \<Rightarrow> Inl OperationalError)"

definition perform_update :: "table \<Rightarrow> column \<Rightarrow> new_value \<Rightarrow> int \<Rightarrow> world \<Rightarrow> unit outcome" where
  "perform_update t f v record_id w =
     (case update_row t f v record_id (db w) of
        Inl e \<Rightarrow> Raises e w
      | Inr s \<Rightarrow> Returns () (prints [Field_updated f, Border] (w\<lparr>db := s\<rparr>)))"

text \<open>
  \<^verbatim>\<open>update_record(table, record_id, fields)\<close>. Of the five column names only
  \<^verbatim>\<open>amount\<close> contains the text "amount".
\<close>

definition mentions_amount :: "column \<Rightarrow> bool" where
  "mentions_amount f = (f = Amount)"

definition field_menu :: "column list \<Rightarrow> line list" where
  "field_menu fs = map (\<lambda>(i, f). Field_option (i + 1) f) (enumerate 0 fs)"

definition update_record :: "table \<Rightarrow> int \<Rightarrow> column list \<Rightarrow> world \<Rightarrow> unit outcome" where
  "update_record t record_id fs w =
     and_then (validate_int_input (prints (Which_field # field_menu fs) w))
       (\<lambda>n w.
          let field_index = n - 1 in
          if field_index < 0 \<or> field_index \<ge> int (length fs)
          then Returns () (print Invalid_selection w)
          else
            let f = fs ! nat field_index in
            if mentions_amount f
            then and_then (validate_float_input w)
                   (\<lambda>new_value. perform_update t f (Float_value new_value) record_id)
            else and_then (input w)
                   (\<lambda>new_value. perform_update t f (Str_value new_value) record_id))"

text \<open>
  The foreign keys of \<^verbatim>\<open>create_database\<close>: \<^verbatim>\<open>category_id\<close> of \<^verbatim>\<open>expenses\<close> and
  of \<^verbatim>\<open>budgets\<close> references \<^verbatim>\<open>expense_category(id)\<close>, that of \<^verbatim>\<open>income\<close>
  references \<^verbatim>\<open>income_category(id)\<close>, each with \<^verbatim>\<open>ON DELETE CASCADE\<close>.
\<close>

definition parent :: "table \<Rightarrow> table option" where
  "parent t =
     (case t of
        Expenses \<Rightarrow> Some Expense_category
      | Income \<Rightarrow> Some Income_category
      | Budgets \<Rightarrow> Some Expense_category
      | _ \<Rightarrow> None)"

text \<open>
  \<^verbatim>\<open>category_id = k\<close> for an integer \<open>k\<close>: numbers are compared by value, a text or
  NULL is equal to no number.
\<close>

definition matches_id :: "int_column \<Rightarrow> int \<Rightarrow> bool" where
  "matches_id c k =
     (case c of
        Int_id i \<Rightarrow> i = k
      | Real_id d \<Rightarrow> d = Finite (of_int k)
      | _ \<Rightarrow> False)"

definition references :: "int \<Rightarrow> int \<times> int_column \<times> double option \<Rightarrow> bool" where
  "references parent_id r = matches_id (fst (snd r)) parent_id"

text \<open>
  \<^verbatim>\<open>delete_record(table, record_id)\<close> switches foreign keys on and runs
  \<^verbatim>\<open>DELETE FROM table WHERE id = ?\<close>: the rows of the table with that id go. When a row
  of a category table goes, the rows of the tables that reference it with its id go too.
\<close>

definition has_row :: "table \<Rightarrow> int \<Rightarrow> store \<Rightarrow> bool" where
  "has_row t record_id s =
     (case t of
        Expense_category \<Rightarrow> record_id \<in> set (map fst (expense_category s))
      | Expenses \<Rightarrow> record_id \<in> set (map fst (expenses s))
      | Income_category \<Rightarrow> record_id \<in> set (map fst (income_category s))
      | Income \<Rightarrow> record_id \<in> set (map fst (income s))
      | Budgets \<Rightarrow> record_id \<in> set (map fst (budgets s))
      | Financial_goals \<Rightarrow> record_id \<in> set (map fst (financial_goals s)))"

definition delete_where_id :: "table \<Rightarrow> table \<Rightarrow> int \<Rightarrow> (int \<times> 'a) list \<Rightarrow> (int \<times> 'a) list" where
  "delete_where_id this t record_id rows =
     (if t = this then filter (\<lambda>r. fst r \<noteq> record_id) rows else rows)"

definition cascade ::
  "table \<Rightarrow> table \<Rightarrow> int \<Rightarrow> store \<Rightarrow> (int \<times> int_column \<times> double option) list
   \<Rightarrow> (int \<times> int_column \<times> double option) list" where
  "cascade child t record_id s rows =
     (if parent child = Some t \<and> has_row t record_id s
      then filter (\<lambda>r. \<not> references record_id r) rows else rows)"

definition delete_row :: "table \<Rightarrow> int \<Rightarrow> store \<Rightarrow> store" where
  "delete_row t record_id s =
     s\<lparr>expense_category :=
         delete_where_id Expense_category t record_id (expense_category s),
       expenses :=
         cascade Expenses t record_id s (delete_where_id Expenses t record_id (expenses s)),
       income_category :=
         delete_where_id Income_category t record_id (income_category s),
       income :=
         cascade Income t record_id s (delete_where_id Income t record_id (income s)),
       budgets :=
         cascade Budgets t record_id s (delete_where_id Budgets t record_id (budgets s)),
       financial_goals :=
         delete_where_id Financial_goals t record_id (financial_goals s)\<rparr>"

definition delete_record :: "table \<Rightarrow> int \<Rightarrow> world \<Rightarrow> world" where
  "delete_record t record_id w =
     prints [Record_deleted t, Border] (w\<lparr>db := delete_row t record_id (db w)\<rparr>)"

text \<open>
  \<^verbatim>\<open>fetch_expenses\<close> and \<^verbatim>\<open>fetch_income\<close>: an inner join of the transactions with
  their category table, giving (id, category name, amount).
\<close>

definition join_categories ::
  "(int \<times> int_column \<times> double option) list \<Rightarrow> (int \<times> string) list
   \<Rightarrow> (int \<times> string \<times> double option) list" where
  "join_categories rows cats =
     concat (map (\<lambda>(i, c, a).
        map (\<lambda>(k, name). (i, name, a)) (filter (\<lambda>(k, name). matches_id c k) cats)) rows)"

definition fetch_expenses :: "store \<Rightarrow> (int \<times> string \<times> double option) list" where
  "fetch_expenses s = join_categories (expenses s) (expense_category s)"

definition fetch_income :: "store \<Rightarrow> (int \<times> string \<times> double option) list" where
  "fetch_income s = join_categories (income s) (income_category s)"

text \<open>
  \<^verbatim>\<open>column_exists(table, column, value)\<close> with a text value. The program calls it for
  the description of a goal only, a text column, where texts are compared as they are;
  the other columns that exist are compared with what the text is as a number.
\<close>

definition column_exists :: "table \<Rightarrow> column \<Rightarrow> string \<Rightarrow> store \<Rightarrow> exn + bool" where
  "column_exists t f v s =
     (case (t, f) of
        (Expenses, Category_id) \<Rightarrow>
          Inr (integer_affinity v \<in> set (map (\<lambda>(i, c, a). c) (expenses s)))
      | (Expenses, Amount) \<Rightarrow>
          Inr (real_affinity v \<in> set (map Real (present (map (\<lambda>(i, c, a). a) (expenses s)))))
      | (Income, Category_id) \<Rightarrow>
          Inr (integer_affinity v \<in> set (map (\<lambda>(i, c, a). c) (income s)))
      | (Income, Amount) \<Rightarrow>
          Inr (real_affinity v \<in> set (map Real (present (map (\<lambda>(i, c, a). a) (income s)))))
      | (Budgets, Category_id) \<Rightarrow>
          Inr (integer_affinity v \<in> set (map (\<lambda>(i, c, a). c) (budgets s)))
      | (Budgets, Amount) \<Rightarrow>
          Inr (real_affinity v \<in> set (map Real (present (map (\<lambda>(i, c, a). a) (budgets s)))))
      | (Financial_goals, Description) \<Rightarrow>
          Inr (v \<in> set (map (\<lambda>(i, d, g, p). d) (financial_goals s)))
      | (Financial_goals, Target) \<Rightarrow>
          Inr (real_affinity v \<in> set (map (\<lambda>(i, d, g, p). g) (financial_goals s)))
      | (Financial_goals, Progress) \<Rightarrow>
          Inr (real_affinity v \<in> set (map (\<lambda>(i, d, g, p). p) (financial_goals s)))
      | _ \<Rightarrow> Inl OperationalError)"

section \<open>The retry loops\<close>

text \<open>
  Every action that asks for an id, except \<^verbatim>\<open>delete_expense_category\<close>, contains the
  same loop, started with \<^verbatim>\<open>attempts = 0\<close>:
  \<^verbatim>\<open>
    while True:
        if attempts >= 3:
            print("Too many invalid attempts. Please try again later.")
            print("\\n", "-"*10, "\\n")
            return
        x = validate_int_input(...)
        if validate_range(x, valid_ids) is not None:
            break
        else:
            attempts += 1
  \<close>
  \<open>select_id\<close> is that loop; it gives \<open>None\<close> where the action returns early.
\<close>

function select_id :: "nat \<Rightarrow> int list \<Rightarrow> world \<Rightarrow> int option outcome" where
  "select_id attempts valid_ids w =
     (if attempts \<ge> 3 then Returns None (prints [Too_many_attempts, Border] w)
      else
        case validate_int_input w of
          Raises e w1 \<Rightarrow> Raises e w1
        | Returns x w1 \<Rightarrow>
            (case validate_range x valid_ids w1 of
               (Some _, w2) \<Rightarrow> Returns (Some x) w2
             | (None, w2) \<Rightarrow> select_id (attempts + 1) valid_ids w2))"
  by pat_completeness auto
termination
  by (relation "measure (\<lambda>(attempts, valid_ids, w). 3 - attempts)") auto

text \<open>
  The loop of \<^verbatim>\<open>delete_expense_category\<close> has no counter:
  \<^verbatim>\<open>
    while True:
        category_id = validate_int_input("Enter category ID to delete: ")
        if validate_range(category_id, valid_category_ids) is not None:
            break
  \<close>
  It ends because every round reads at least one of the typed lines.
\<close>

function select_id_unbounded :: "int list \<Rightarrow> world \<Rightarrow> int outcome" where
  "select_id_unbounded valid_ids w =
     (case validate_int_input w of
        Raises e w1 \<Rightarrow> Raises e w1
      | Returns x w1 \<Rightarrow>
          (case validate_range x valid_ids w1 of
             (Some _, w2) \<Rightarrow> Returns x w2
           | (None, w2) \<Rightarrow> select_id_unbounded valid_ids w2))"
  by pat_completeness auto
termination
proof (relation "measure (\<lambda>(valid_ids, w). length (stdin w))")
  show "wf (measure (\<lambda>(valid_ids :: int list, w). length (stdin w)))"
    by simp
next
  fix valid_ids :: "int list" and w :: world and x w1 u w2
  assume read: "validate_int_input w = Returns x w1"
    and range: "(u, w2) = validate_range x valid_ids w1" "u = None"
  have shorter: "validate_int_input w = Returns x w1 \<Longrightarrow> length (stdin w1) < length (stdin w)"
    for w x w1
  proof (induction w rule: validate_int_input.induct)
    case (1 w)
    show ?case
    proof (cases "stdin w")
      case Nil
      with "1.prems" show ?thesis
        by (simp add: validate_int_input.simps [of w] input_def)
    next
      case (Cons l ls)
      show ?thesis
      proof (cases "py_int l")
        case (Some v)
        with Cons "1.prems" show ?thesis
          by (auto simp: validate_int_input.simps [of w] input_def)
      next
        case None
        let ?w1 = "w\<lparr>stdin := ls\<rparr>"
        have "input w = Returns l ?w1"
          using Cons by (simp add: input_def)
        moreover from this None "1.prems"
        have "validate_int_input (print Invalid_integer ?w1) = Returns x w1"
          by (simp add: validate_int_input.simps [of w])
        ultimately have "length (stdin w1) < length (stdin (print Invalid_integer ?w1))"
          using None "1.IH" by blast
        then show ?thesis
          using Cons by (simp add: print_def)
      qed
    qed
  qed
  have "stdin w2 = stdin w1"
    using range by (auto simp: validate_range_def print_def split: if_splits)
  with shorter [OF read]
  show "((valid_ids, w2), (valid_ids, w)) \<in> measure (\<lambda>(valid_ids, w). length (stdin w))"
    by simp
qed

declare validate_int_input.simps [simp del]
declare validate_float_input.simps [simp del]
declare select_id.simps [simp del]
declare select_id_unbounded.simps [simp del]

section \<open>Menu functions: expenses\<close>

definition add_expense_category :: "world \<Rightarrow> unit outcome" where
  "add_expense_category w =
     and_then (input w) (\<lambda>name. add_category Expense_category (title name) Category_exists)"

definition view_expense_categories :: "world \<Rightarrow> retval \<times> world" where
  "view_expense_categories w =
     (let categories = expense_category (db w) in
      if categories \<noteq> []
      then (PyList (map fst categories),
            prints [Expense_categories_heading, Category_table categories, Border] w)
      else (PyList [], prints [No_expense_categories, Border] w))"

definition delete_expense_category :: "world \<Rightarrow> unit outcome" where
  "delete_expense_category w =
     (case view_expense_categories w of
        (valid_category_ids, w) \<Rightarrow>
          if \<not> truthy valid_category_ids then Returns () (print No_valid_categories w)
          else and_then (select_id_unbounded (id_list valid_category_ids) w)
                 (\<lambda>category_id w. Returns () (delete_record Expense_category category_id w)))"

definition add_expense :: "world \<Rightarrow> unit outcome" where
  "add_expense w =
     (case view_expense_categories w of
        (valid_category_ids, w) \<Rightarrow>
          if \<not> truthy valid_category_ids then Returns () (print No_valid_categories_add w)
          else and_then (select_id 0 (id_list valid_category_ids) w)
                 (\<lambda>chosen w.
                    case chosen of
                      None \<Rightarrow> Returns () w
                    | Some category_id \<Rightarrow>
                        and_then (validate_float_input w)
                          (\<lambda>amount. add_record Expenses (Category_amount category_id amount))))"

text \<open>
  \<^verbatim>\<open>view_expenses\<close> prints the heading and the table and then adds the amounts up; a
  NULL amount makes the addition raise.
\<close>

definition view_expenses :: "world \<Rightarrow> retval outcome" where
  "view_expenses w =
     (let expenses = fetch_expenses (db w) in
      if expenses \<noteq> []
      then
        (let w1 = prints [Expenses_heading, Transaction_table expenses] w in
         case py_sum (map (\<lambda>(i, name, a). a) expenses) of
           Inl e \<Rightarrow> Raises e w1
         | Inr total_expenses \<Rightarrow>
             Returns (PyList (map fst expenses))
               (prints [Total_expenses total_expenses, Border] w1))
      else Returns (PyList []) (prints [No_expenses, Border] w))"

text \<open>\<^verbatim>\<open>SELECT amount FROM t WHERE category_id = ?\<close> with an integer.\<close>

definition amounts_in_category ::
  "int \<Rightarrow> (int \<times> int_column \<times> double option) list \<Rightarrow> double option list" where
  "amounts_in_category category_id rows =
     map (\<lambda>(i, c, a). a) (filter (references category_id) rows)"

definition view_expenses_by_category :: "world \<Rightarrow> unit outcome" where
  "view_expenses_by_category w =
     (case view_expense_categories w of
        (valid_category_ids, w) \<Rightarrow>
          if \<not> truthy valid_category_ids then Returns () w
          else and_then (select_id 0 (id_list valid_category_ids) w)
                 (\<lambda>chosen w.
                    case chosen of
                      None \<Rightarrow> Returns () w
                    | Some category_id \<Rightarrow>
                        (let expenses = amounts_in_category category_id (expenses (db w));
                             w1 = print (Amount_table expenses) w
                         in case py_sum expenses of
                              Inl e \<Rightarrow> Raises e w1
                            | Inr total_expenses \<Rightarrow>
                                Returns () (prints
                                  [Total_expenses_in_category total_expenses, Border] w1))))"

definition update_expense :: "world \<Rightarrow> unit outcome" where
  "update_expense w =
     and_then (view_expenses w)
       (\<lambda>valid_expense_ids w.
          if \<not> truthy valid_expense_ids then Returns () w
          else and_then (select_id 0 (id_list valid_expense_ids) w)
                 (\<lambda>chosen w.
                    case chosen of
                      None \<Rightarrow> Returns () w
                    | Some expense_id \<Rightarrow> update_record Expenses expense_id [Category_id, Amount] w))"

definition delete_expense :: "world \<Rightarrow> unit outcome" where
  "delete_expense w =
     and_then (view_expenses w)
       (\<lambda>valid_expense_ids w.
          if \<not> truthy valid_expense_ids then Returns () w
          else and_then (select_id 0 (id_list valid_expense_ids) w)
                 (\<lambda>chosen w.
                    case chosen of
                      None \<Rightarrow> Returns () w
                    | Some expense_id \<Rightarrow> Returns () (delete_record Expenses expense_id w)))"

section \<open>Menu functions: income\<close>

definition add_income_category :: "world \<Rightarrow> unit outcome" where
  "add_income_category w =
     and_then (input w) (\<lambda>name. add_category Income_category (title name) Category_exists)"

text \<open>
  \<^verbatim>\<open>view_income_categories\<close> has no \<^verbatim>\<open>return\<close> in its second branch, so it returns
  \<^verbatim>\<open>None\<close> there.
\<close>

definition view_income_categories :: "world \<Rightarrow> retval \<times> world" where
  "view_income_categories w =
     (let categories = income_category (db w) in
      if categories \<noteq> []
      then (PyList (map fst categories),
            prints [Income_categories_heading, Category_table categories, Border] w)
      else (PyNone, prints [No_income_categories, Border] w))"

definition delete_income_category :: "world \<Rightarrow> unit outcome" where
  "delete_income_category w =
     (case view_income_categories w of
        (valid_category_ids, w) \<Rightarrow>
          if \<not> truthy valid_category_ids then Returns () w
          else and_then (select_id 0 (id_list valid_category_ids) w)
                 (\<lambda>chosen w.
                    case chosen of
                      None \<Rightarrow> Returns () w
                    | Some category_id \<Rightarrow>
                        Returns () (delete_record Income_category category_id w)))"

definition add_income :: "world \<Rightarrow> unit outcome" where
  "add_income w =
     (case view_income_categories w of
        (valid_category_ids, w) \<Rightarrow>
          if \<not> truthy valid_category_ids then Returns () w
          else and_then (select_id 0 (id_list valid_category_ids) w)
                 (\<lambda>chosen w.
                    case chosen of
                      None \<Rightarrow> Returns () w
                    | Some category_id \<Rightarrow>
                        and_then (validate_float_input w)
                          (\<lambda>amount. add_record Income (Category_amount category_id amount))))"

definition view_income :: "world \<Rightarrow> retval outcome" where
  "view_income w =
     (let incomes = fetch_income (db w) in
      if incomes \<noteq> []
      then
        (let w1 = prints [Income_heading, Transaction_table incomes] w in
         case py_sum (map (\<lambda>(i, name, a). a) incomes) of
           Inl e \<Rightarrow> Raises e w1
         | Inr total_income \<Rightarrow>
             Returns (PyList (map fst incomes)) (prints [Total_income total_income, Border] w1))
      else Returns (PyList []) (prints [No_income, Border] w))"

definition view_income_by_category :: "world \<Rightarrow> unit outcome" where
  "view_income_by_category w =
     (case view_income_categories w of
        (valid_category_ids, w) \<Rightarrow>
          if \<not> truthy valid_category_ids then Returns () w
          else and_then (select_id 0 (id_list valid_category_ids) w)
                 (\<lambda>chosen w.
                    case chosen of
                      None \<Rightarrow> Returns () w
                    | Some category_id \<Rightarrow>
                        (let incomes = amounts_in_category category_id (income (db w));
                             w1 = print (Amount_table incomes) w
                         in case py_sum incomes of
                              Inl e \<Rightarrow> Raises e w1
                            | Inr total_income \<Rightarrow>
                                Returns () (prints
                                  [Total_income_in_category total_income, Border] w1))))"

definition update_income :: "world \<Rightarrow> unit outcome" where
  "update_income w =
     and_then (view_income w)
       (\<lambda>valid_income_ids w.
          if \<not> truthy valid_income_ids then Returns () w
          else and_then (select_id 0 (id_list valid_income_ids) w)
                 (\<lambda>chosen w.
                    case chosen of
                      None \<Rightarrow> Returns () w
                    | Some income_id \<Rightarrow> update_record Income income_id [Category_id, Amount] w))"

definition delete_income :: "world \<Rightarrow> unit outcome" where
  "delete_income w =
     and_then (view_income w)
       (\<lambda>valid_income_ids w.
          if \<not> truthy valid_income_ids then Returns () w
          else and_then (select_id 0 (id_list valid_income_ids) w)
                 (\<lambda>chosen w.
                    case chosen of
                      None \<Rightarrow> Returns () w
                    | Some income_id \<Rightarrow> Returns () (delete_record Income income_id w)))"

section \<open>Menu functions: budgets\<close>


definition set_category_budget :: "world \<Rightarrow> unit outcome" where
  "set_category_budget w =
     (case view_expense_categories w of
        (valid_category_ids, w) \<Rightarrow>
          if \<not> truthy valid_category_ids then Returns () w
          else and_then (select_id 0 (id_list valid_category_ids) w)
                 (\<lambda>chosen w.
                    case chosen of
                      None \<Rightarrow> Returns () w
                    | Some category_id \<Rightarrow>
                        and_then (validate_float_input w)
                          (\<lambda>amount w.
                             if filter (references category_id) (budgets (db w)) \<noteq> []
                             then Returns () (print (Budget_exists category_id) w)
                             else add_record Budgets (Category_amount category_id amount) w)))"

definition view_all_budgets :: "world \<Rightarrow> retval \<times> world" where
  "view_all_budgets w =
     (let budgets = budgets (db w) in
      if budgets \<noteq> []
      then (PyList (map fst budgets), prints [Budgets_heading, Budget_table budgets, Border] w)
      else (PyList [], prints [No_budgets, Border] w))"

text \<open>
  \<^verbatim>\<open>budgets.category_id = expenses.category_id\<close>: two values of columns of the same
  affinity. Numbers are compared by value, texts as texts; NULL equals nothing.
\<close>

definition same_id :: "int_column \<Rightarrow> int_column \<Rightarrow> bool" where
  "same_id b c =
     (case b of
        Null_id \<Rightarrow> False
      | Int_id i \<Rightarrow> matches_id c i
      | Real_id d \<Rightarrow> d \<noteq> NaN \<and> (c = Real_id d \<or> (case c of Int_id j \<Rightarrow> d = Finite (of_int j) | _ \<Rightarrow> False))
      | Text_id s \<Rightarrow> c = Text_id s)"

text \<open>
  The query of \<^verbatim>\<open>view_category_budget\<close>:
  \<^verbatim>\<open>
    SELECT budgets.amount, IFNULL(SUM(expenses.amount), 0) FROM budgets
    LEFT JOIN expenses ON budgets.category_id = expenses.category_id
    WHERE budgets.id = ?
  \<close>
  The left join pairs a budget row with each expense row of its category, or with NULL
  when there is none. The aggregate makes the result one row whatever the join gives,
  so \<^verbatim>\<open>fetchone\<close> always returns a tuple: of the budget amount of a joined row (NULL
  when no budget row has the id) and the sum. Ids are a primary key, so all joined rows
  carry the same budget amount; the model takes that of the first.
\<close>

definition left_join_expenses ::
  "int \<Rightarrow> store \<Rightarrow> (double option \<times> double option) list" where
  "left_join_expenses budget_id s =
     concat (map (\<lambda>(i, bc, ba).
        let matching = filter (\<lambda>(j, c, a). same_id bc c) (expenses s)
        in if matching = [] then [(ba, None)] else map (\<lambda>(j, c, a). (ba, a)) matching)
       (filter (\<lambda>(i, bc, ba). i = budget_id) (budgets s)))"

definition budget_query :: "int \<Rightarrow> store \<Rightarrow> (double option \<times> double) option" where
  "budget_query budget_id s =
     (let joined = left_join_expenses budget_id s
      in Some (case joined of [] \<Rightarrow> None | r # _ \<Rightarrow> fst r,
               ifnull (sql_sum (map snd joined)) (Finite 0)))"

text \<open>
  \<^verbatim>\<open>view_category_budget\<close> prints the first line of the details and then formats the
  budget amount, which fails on \<^verbatim>\<open>None\<close>.
\<close>

definition view_category_budget :: "world \<Rightarrow> unit outcome" where
  "view_category_budget w =
     (case view_all_budgets w of
        (valid_budget_ids, w) \<Rightarrow>
          if \<not> truthy valid_budget_ids then Returns () w
          else and_then (select_id 0 (id_list valid_budget_ids) w)
                 (\<lambda>chosen w.
                    case chosen of
                      None \<Rightarrow> Returns () w
                    | Some budget_id \<Rightarrow>
                        (case budget_query budget_id (db w) of
                           Some (budget_amount, total_spent) \<Rightarrow>
                             (case budget_amount of
                                None \<Rightarrow> Raises TypeError (print (Details_for_budget budget_id) w)
                              | Some budget_amount \<Rightarrow>
                                  Returns () (prints
                                    ([Details_for_budget budget_id, Budget_amount budget_amount,
                                      Total_spent total_spent] @
                                     (if dless budget_amount total_spent
                                      then [Over_budget (dsub total_spent budget_amount)]
                                      else [Within_budget]) @
                                     [Short_border]) w))
                         | None \<Rightarrow> Returns () (prints [No_budget_found, Border] w))))"

definition update_category_budget :: "world \<Rightarrow> unit outcome" where
  "update_category_budget w =
     (case view_all_budgets w of
        (valid_budget_ids, w) \<Rightarrow>
          if \<not> truthy valid_budget_ids then Returns () w
          else and_then (select_id 0 (id_list valid_budget_ids) w)
                 (\<lambda>chosen w.
                    case chosen of
                      None \<Rightarrow> Returns () w
                    | Some budget_id \<Rightarrow> update_record Budgets budget_id [Amount] w))"

text \<open>\<^verbatim>\<open>delete_category_budget\<close> does not return early on an empty list of budgets.\<close>

definition delete_category_budget :: "world \<Rightarrow> unit outcome" where
  "delete_category_budget w =
     (case view_all_budgets w of
        (valid_budget_ids, w) \<Rightarrow>
          and_then (select_id 0 (id_list valid_budget_ids) w)
            (\<lambda>chosen w.
               case chosen of
                 None \<Rightarrow> Returns () w
               | Some budget_id \<Rightarrow> Returns () (delete_record Budgets budget_id w)))"

section \<open>Menu functions: goals\<close>

definition set_financial_goal :: "world \<Rightarrow> unit outcome" where
  "set_financial_goal w =
     and_then (input w) (\<lambda>line w.
       let description = title line in
       and_then (validate_float_input w) (\<lambda>target w.
         and_then (validate_float_input w) (\<lambda>progress w.
           case column_exists Financial_goals Description description (db w) of
             Inl e \<Rightarrow> Raises e w
           | Inr found \<Rightarrow>
               if \<not> found
               then add_record Financial_goals (Goal_values description target progress) w
               else Returns () (prints [Goal_exists, Border] w))))"

text \<open>
  \<^verbatim>\<open>view_current_goals\<close> returns the ids from its first branch; the second falls
  through to the border and returns \<^verbatim>\<open>None\<close>.
\<close>

definition view_current_goals :: "world \<Rightarrow> retval \<times> world" where
  "view_current_goals w =
     (let goals = map (\<lambda>(i, d, g, p). (i, d)) (financial_goals (db w)) in
      if goals \<noteq> []
      then (PyList (map fst goals), prints [Goals_heading, Goal_table goals] w)
      else (PyNone, prints [No_goals, Border] w))"

text \<open>
  \<^verbatim>\<open>view_goal_progress\<close> unpacks the row it fetched, prints the description and formats
  target and progress with \<^verbatim>\<open>:.2f\<close>, which fails on \<^verbatim>\<open>None\<close> and on a text.
\<close>

definition format_2f :: "real_column \<Rightarrow> exn + double" where
  "format_2f v =
     (case v of Null \<Rightarrow> Inl TypeError | Real d \<Rightarrow> Inr d | Real_text s \<Rightarrow> Inl ValueError)"

definition view_goal_progress :: "world \<Rightarrow> unit outcome" where
  "view_goal_progress w =
     (case view_current_goals w of
        (valid_goal_ids, w) \<Rightarrow>
          if \<not> truthy valid_goal_ids then Returns () w
          else and_then (select_id 0 (id_list valid_goal_ids) w)
                 (\<lambda>chosen w.
                    case chosen of
                      None \<Rightarrow> Returns () w
                    | Some goal_id \<Rightarrow>
                        (case find (\<lambda>(i, d, g, p). i = goal_id) (financial_goals (db w)) of
                           None \<Rightarrow> Raises TypeError w
                         | Some (i, description, g, p) \<Rightarrow>
                             (let w1 = print (Goal_description description) w in
                              case format_2f g of
                                Inl e \<Rightarrow> Raises e w1
                              | Inr target \<Rightarrow>
                                  (let w2 = print (Target_amount target) w1 in
                                   case format_2f p of
                                     Inl e \<Rightarrow> Raises e w2
                                   | Inr progress \<Rightarrow>
                                       Returns () (prints
                                         ([Current_progress progress] @
                                          (if dle target progress then [Target_reached]
                                           else [Short_of_target (dsub target progress)]) @
                                          [Border]) w2))))))"

definition update_goal :: "world \<Rightarrow> unit outcome" where
  "update_goal w =
     (case view_current_goals w of
        (valid_goal_ids, w) \<Rightarrow>
          if \<not> truthy valid_goal_ids then Returns () w
          else and_then (select_id 0 (id_list valid_goal_ids) w)
                 (\<lambda>chosen w.
                    case chosen of
                      None \<Rightarrow> Returns () w
                    | Some goal_id \<Rightarrow>
                        update_record Financial_goals goal_id [Description, Target, Progress] w))"

definition delete_goal :: "world \<Rightarrow> unit outcome" where
  "delete_goal w =
     (case view_current_goals w of
        (valid_goal_ids, w) \<Rightarrow>
          if \<not> truthy valid_goal_ids then Returns () w
          else and_then (select_id 0 (id_list valid_goal_ids) w)
                 (\<lambda>chosen w.
                    case chosen of
                      None \<Rightarrow> Returns () w
                    | Some goal_id \<Rightarrow> Returns () (delete_record Financial_goals goal_id w)))"

section \<open>Sums that need no rounding\<close>



text \<open>A category id that is the id of a row of the category table.\<close>

definition has_category :: "(int \<times> string) list \<Rightarrow> int_column \<Rightarrow> bool" where
  "has_category cats c = (filter (\<lambda>(k, name). matches_id c k) cats \<noteq> [])"

text \<open>
  What the user sees of a call: how it ended, and everything printed; and the ids a
  listing returned.
\<close>

definition shown :: "'a outcome \<Rightarrow> (exn + 'a) \<times> line list" where
  "shown r = (case r of Returns v w \<Rightarrow> (Inr v, stdout w) | Raises e w \<Rightarrow> (Inl e, stdout w))"

definition returned :: "retval outcome \<Rightarrow> int list" where
  "returned r = (case r of Returns v w \<Rightarrow> id_list v | Raises e w \<Rightarrow> [])"

section \<open>Example stores\<close>

text \<open>The database right after \<^verbatim>\<open>create_database\<close> has made it.\<close>

definition empty_store :: store where
  "empty_store =
     \<lparr>expense_category = [], expenses = [], income_category = [], income = [], budgets = [],
      financial_goals = [], sqlite_sequence = (\<lambda>t. 0)\<rparr>"

definition goal_world :: world where
  "goal_world =
     \<lparr>db = empty_store\<lparr>financial_goals :=
             [(1, ''Emergency Fund'', Real (Finite 1000), Real (Finite 1000))]\<rparr>,
      stdin = [''1''], stdout = []\<rparr>"

definition food_store :: store where
  "food_store =
     empty_store\<lparr>expense_category := [(1, ''Food'')],
       expenses := [(1, Int_id 1, Some (Finite (25 / 2))), (2, Int_id 1, Some (Finite (15 / 2)))],
       budgets := [(1, Int_id 1, Some (Finite 15))]\<rparr>"

definition orphan_expense_store :: store where
  "orphan_expense_store =
     food_store\<lparr>expenses :=
       [(1, Int_id 1, Some (Finite (25 / 2))), (2, Int_id 7, Some (Finite (15 / 2)))]\<rparr>"

definition salary_store :: store where
  "salary_store =
     empty_store\<lparr>income_category := [(1, ''Salary'')],
       income := [(1, Int_id 1, Some (Finite 10)), (2, Int_id 1, Some (Finite 5))]\<rparr>"

definition orphan_income_store :: store where
  "orphan_income_store =
     salary_store\<lparr>income := [(1, Int_id 1, Some (Finite 10)), (2, Int_id 7, Some (Finite 5))]\<rparr>"


text \<open>
  Amounts of ten thousand million million and of one: both are doubles, their sum and
  their difference are not.
\<close>

definition large_store :: store where
  "large_store =
     empty_store\<lparr>expense_category := [(1, ''Food'')],
       expenses := [(1, Int_id 1, Some (Finite 10000000000000000)), (2, Int_id 1, Some (Finite 1))],
       budgets := [(1, Int_id 1, Some (Finite 10000000000000000))],
       income_category := [(1, ''Salary'')],
       income := [(1, Int_id 1, Some (Finite 10000000000000000)), (2, Int_id 1, Some (Finite 1))],
       financial_goals := [(1, ''House'', Real (Finite 10000000000000000), Real (Finite 1))]\<rparr>"


section \<open>Double precision: what is exact\<close>

lemma round_double_zero [simp]: "round_double 0 = Finite 0"
  by (simp add: round_double_def)


lemma is_double_zero [simp]: "is_double 0"
  by (simp add: is_double_def)



lemma dsub_finite: "dsub (Finite a) (Finite b) = round_double (a - b)"
  by (simp add: dsub_def)

lemma dless_finite: "dless (Finite a) (Finite b) = (a < b)"
  by simp

lemma dle_finite: "dle (Finite a) (Finite b) = (a \<le> b)"
  by (auto simp: dle_def)










section \<open>Evaluation and frame lemmas\<close>

lemmas parse_defs =
  py_int_def signed_int_def with_sign_def unsigned_int_def strip_def is_space_def is_digit_def
  digits_value_def plain_digits_def

lemmas delete_defs =
  delete_record_def delete_row_def delete_where_id_def cascade_def parent_def references_def
  has_row_def matches_id_def

lemmas run_defs =
  validate_int_input.simps validate_float_input.simps select_id.simps select_id_unbounded.simps
  input_def print_def prints_def validate_range_def and_then_def Let_def

lemma prints_db [simp]: "db (prints ls w) = db w"
  by (simp add: prints_def)

lemma print_db [simp]: "db (print l w) = db w"
  by (simp add: print_def)

lemma validate_int_input_db: "validate_int_input w = Returns x w1 \<Longrightarrow> db w1 = db w"
proof (induction w rule: validate_int_input.induct)
  case (1 w)
  from "1.prems" show ?case
    by (subst (asm) validate_int_input.simps)
      (auto simp: input_def split: list.splits option.splits dest: "1.IH" [rotated -1])
qed

lemma validate_int_input_raises_db: "validate_int_input w = Raises e w1 \<Longrightarrow> db w1 = db w"
proof (induction w rule: validate_int_input.induct)
  case (1 w)
  from "1.prems" show ?case
    by (subst (asm) validate_int_input.simps)
      (auto simp: input_def split: list.splits option.splits dest: "1.IH" [rotated -1])
qed

lemma validate_float_input_db: "validate_float_input w = Returns x w1 \<Longrightarrow> db w1 = db w"
proof (induction w rule: validate_float_input.induct)
  case (1 w)
  from "1.prems" show ?case
    by (subst (asm) validate_float_input.simps)
      (auto simp: input_def split: list.splits option.splits dest: "1.IH" [rotated -1])
qed

lemma select_id_cases:
  assumes "select_id n ids w = Returns r w1"
  obtains
    (give_up) "3 \<le> n" "r = None" "w1 = prints [Too_many_attempts, Border] w"
  | (chosen) x where "n < 3" "validate_int_input w = Returns x w1" "x \<in> set ids" "r = Some x"
  | (again) x w' where "n < 3" "validate_int_input w = Returns x w'" "x \<notin> set ids"
      "select_id (n + 1) ids (print (Invalid_range ids) w') = Returns r w1"
  using assms
  by (subst (asm) select_id.simps)
    (auto simp: validate_range_def split: if_splits outcome.splits prod.splits)

lemma select_id_db: "select_id n ids w = Returns r w1 \<Longrightarrow> db w1 = db w"
proof (induction n ids w rule: select_id.induct)
  case (1 attempts valid_ids w)
  from "1.prems" show ?case
  proof (cases rule: select_id_cases)
    case give_up
    then show ?thesis by simp
  next
    case (chosen x)
    then show ?thesis by (simp add: validate_int_input_db)
  next
    case (again x w')
    have "db w1 = db (print (Invalid_range valid_ids) w')"
      using again by (intro "1.IH" [of x w']) (simp_all add: validate_range_def)
    with again show ?thesis by (simp add: validate_int_input_db)
  qed
qed

lemma select_id_valid: "select_id n ids w = Returns (Some x) w1 \<Longrightarrow> x \<in> set ids"
proof (induction n ids w rule: select_id.induct)
  case (1 attempts valid_ids w)
  from "1.prems" show ?case
  proof (cases rule: select_id_cases)
    case give_up
    then show ?thesis by simp
  next
    case (chosen y)
    then show ?thesis by simp
  next
    case (again y w')
    then show ?thesis
      by (intro "1.IH" [of y w']) (simp_all add: validate_range_def)
  qed
qed

lemma view_current_goals_db: "db (snd (view_current_goals w)) = db w"
  by (simp add: view_current_goals_def Let_def)


lemma view_expense_categories_db: "db (snd (view_expense_categories w)) = db w"
  by (simp add: view_expense_categories_def Let_def)

lemma select_id_truthy:
  "select_id n (id_list v) w = Returns (Some x) w1 \<Longrightarrow> truthy v"
  by (cases v) (auto dest: select_id_valid)

text \<open>
  Reading from the terminal fails only at the end of the typed lines, and
  \<^verbatim>\<open>update_record\<close> reads a float exactly for the column \<^verbatim>\<open>amount\<close>: it never writes a
  text to an amount column or a float to the description.
\<close>

lemma input_error: "input w = Raises e w1 \<Longrightarrow> e = EOFError"
  by (auto simp: input_def split: list.splits)

lemma validate_int_input_error: "validate_int_input w = Raises e w1 \<Longrightarrow> e = EOFError"
proof (induction w rule: validate_int_input.induct)
  case (1 w)
  from "1.prems" show ?case
    by (subst (asm) validate_int_input.simps)
      (auto simp: input_def split: list.splits option.splits dest: "1.IH" [rotated -1])
qed

lemma validate_float_input_error: "validate_float_input w = Raises e w1 \<Longrightarrow> e = EOFError"
proof (induction w rule: validate_float_input.induct)
  case (1 w)
  from "1.prems" show ?case
    by (subst (asm) validate_float_input.simps)
      (auto simp: input_def split: list.splits option.splits dest: "1.IH" [rotated -1])
qed

lemma perform_update_float:
  "perform_update t Amount (Float_value a) record_id w \<noteq> Raises Outside_model w1"
  by (cases t)
    (simp_all add: perform_update_def update_row_def to_amount_def to_real_column_def
      bind_real_def)

lemma perform_update_text:
  "f \<noteq> Amount \<Longrightarrow> perform_update t f (Str_value v) record_id w \<noteq> Raises Outside_model w1"
  by (cases t; cases f) (simp_all add: perform_update_def update_row_def to_text_def)

lemma update_record_inside_model: "update_record t record_id fs w \<noteq> Raises Outside_model w'"
proof
  assume outside: "update_record t record_id fs w = Raises Outside_model w'"
  show False
  proof (cases "validate_int_input (prints (Which_field # field_menu fs) w)")
    case (Raises e w0)
    with outside validate_int_input_error [OF Raises] show False
      by (simp add: update_record_def and_then_def)
  next
    case (Returns n w1)
    let ?f = "fs ! nat (n - 1)"
    from outside Returns
    have chosen: "0 \<le> n - 1" "n - 1 < int (length fs)"
      and stored: "(if mentions_amount ?f
             then and_then (validate_float_input w1)
                    (\<lambda>new_value. perform_update t ?f (Float_value new_value) record_id)
             else and_then (input w1)
                    (\<lambda>new_value. perform_update t ?f (Str_value new_value) record_id))
            = Raises Outside_model w'"
      by (auto simp: update_record_def and_then_def Let_def split: if_splits)
    show False
    proof (cases "mentions_amount ?f")
      case True
      then have amount: "?f = Amount"
        by (simp add: mentions_amount_def)
      show False
      proof (cases "validate_float_input w1")
        case (Raises e w2)
        with stored True validate_float_input_error [OF Raises] show False
          by (simp add: and_then_def)
      next
        case (Returns a w2)
        with stored True amount perform_update_float [of t a record_id w2 w'] show False
          by (simp add: and_then_def)
      qed
    next
      case False
      then have other: "?f \<noteq> Amount"
        by (simp add: mentions_amount_def)
      show False
      proof (cases "input w1")
        case (Raises e w2)
        with stored False input_error [OF Raises] show False
          by (simp add: and_then_def)
      next
        case (Returns l w2)
        with stored False perform_update_text [OF other, of t l record_id w2 w'] show False
          by (simp add: and_then_def)
      qed
    qed
  qed
qed

section \<open>Goal progress\<close>

text \<open>
  C5, as the code has it. Target and progress are double-precision numbers \<open>T\<close> and
  \<open>P\<close>. Once the goal's id has been chosen, \<^verbatim>\<open>view_goal_progress\<close> prints description,
  target and progress and then "target reached" exactly when \<open>P \<ge> T\<close>; otherwise it
  prints as shortfall the double nearest to \<open>T - P\<close>. The shortfall line is absent when
  the target is reached.
\<close>

theorem view_goal_progress_report:
  assumes goal: "find (\<lambda>(i, d, g, p). i = goal_id) (financial_goals (db w))
                 = Some (goal_id, description, Real (Finite T), Real (Finite P))"
    and chosen: "select_id 0 (id_list (fst (view_current_goals w))) (snd (view_current_goals w))
                 = Returns (Some goal_id) w1"
  shows "view_goal_progress w =
           Returns () (prints ([Goal_description description, Target_amount (Finite T),
                                Current_progress (Finite P)] @
                               (if P \<ge> T then [Target_reached]
                                else [Short_of_target (round_double (T - P))]) @
                               [Border]) w1)"
proof -
  obtain v w0 where view: "view_current_goals w = (v, w0)"
    by force
  have sel: "select_id 0 (id_list v) w0 = Returns (Some goal_id) w1"
    using chosen view by simp
  have "db w0 = db w"
    using view_current_goals_db [of w] view by simp
  with select_id_db [OF sel] have "db w1 = db w"
    by simp
  moreover have "truthy v"
    using sel by (rule select_id_truthy)
  ultimately show ?thesis
    using goal
    by (simp add: view_goal_progress_def view sel and_then_def format_2f_def Let_def
        dle_finite dsub_finite print_def prints_def del: dless.simps dadd.simps)
qed

theorem view_goal_progress_report_witness:
  "view_goal_progress goal_world =
     Returns () (goal_world\<lparr>stdin := [],
                   stdout := [Goals_heading, Goal_table [(1, ''Emergency Fund'')],
                              Goal_description ''Emergency Fund'', Target_amount (Finite 1000),
                              Current_progress (Finite 1000), Target_reached, Border]\<rparr>)"
proof -
  have goal: "find (\<lambda>(i, d, g, p). i = 1) (financial_goals (db goal_world))
              = Some (1, ''Emergency Fund'', Real (Finite 1000), Real (Finite 1000))"
    by (simp add: goal_world_def)
  have chosen: "select_id 0 (id_list (fst (view_current_goals goal_world)))
                  (snd (view_current_goals goal_world))
                = Returns (Some 1) (goal_world\<lparr>stdin := [],
                     stdout := [Goals_heading, Goal_table [(1, ''Emergency Fund'')]]\<rparr>)"
    by (simp add: goal_world_def view_current_goals_def run_defs parse_defs)
  show ?thesis
    using view_goal_progress_report [OF goal chosen] by (simp add: prints_def goal_world_def)
qed

text \<open>
  C5 as the specification has it, "else shortfall = T - P exactly", fails: a goal with
  target 10000000000000000 and progress 1 is reported 10000000000000000 short, which
  is not the difference 9999999999999999.
\<close>

theorem view_goal_progress_report_counterexample:
  "view_goal_progress \<lparr>db = large_store, stdin = [''1''], stdout = []\<rparr> =
     Returns () \<lparr>db = large_store, stdin = [],
                  stdout = [Goals_heading, Goal_table [(1, ''House'')],
                            Goal_description ''House'', Target_amount (Finite 10000000000000000),
                            Current_progress (Finite 1),
                            Short_of_target (Finite 10000000000000000), Border]\<rparr>
   \<and> (10000000000000000 :: rat) - 1 \<noteq> 10000000000000000"
proof -
  have short: "round_double 9999999999999999 = Finite 10000000000000000"
    by code_simp
  have int: "py_int ''1'' = Some 1"
    by code_simp
  show ?thesis
    by (simp add: view_goal_progress_def view_current_goals_def large_store_def empty_store_def
        run_defs int format_2f_def dle_finite dsub_finite short
        del: dless.simps dadd.simps)
qed

section \<open>The overall budget\<close>




section \<open>Category budgets\<close>







text \<open>
  A budget amount typed as \<^verbatim>\<open>nan\<close> is stored as NULL, and \<^verbatim>\<open>view_category_budget\<close>
  then raises after the first line of the details.
\<close>

lemma view_category_budget_null_amount:
  "set_category_budget
     \<lparr>db = empty_store\<lparr>expense_category := [(1, ''Food'')]\<rparr>, stdin = [''1'', ''nan''],
      stdout = []\<rparr> =
     Returns ()
       \<lparr>db = bump Budgets 1
               (empty_store\<lparr>expense_category := [(1, ''Food'')],
                  budgets := [(1, Int_id 1, None)]\<rparr>),
        stdin = [],
        stdout = [Expense_categories_heading, Category_table [(1, ''Food'')], Border,
                  Record_added Budgets, Border]\<rparr>
   \<and> view_category_budget
       \<lparr>db = bump Budgets 1
               (empty_store\<lparr>expense_category := [(1, ''Food'')],
                  budgets := [(1, Int_id 1, None)]\<rparr>),
        stdin = [''1''], stdout = []\<rparr> =
     Raises TypeError
       \<lparr>db = bump Budgets 1
               (empty_store\<lparr>expense_category := [(1, ''Food'')],
                  budgets := [(1, Int_id 1, None)]\<rparr>),
        stdin = [],
        stdout = [Budgets_heading, Budget_table [(1, Int_id 1, None)], Border,
                  Details_for_budget 1]\<rparr>"
proof -
  have typed: "py_float ''nan'' = Some NaN"
    by code_simp
  have int: "py_int ''1'' = Some 1"
    by code_simp
  show ?thesis
    by (simp add: set_category_budget_def view_expense_categories_def add_record_def
        insert_row_def next_id_def bind_float_def typed int references_def matches_id_def
        view_category_budget_def view_all_budgets_def budget_query_def left_join_expenses_def
        bump_def empty_store_def run_defs)
qed

text \<open>
  C2. When the chosen expense category already has a budget row,
  \<^verbatim>\<open>set_category_budget\<close> prints that the budget exists and the database, with the
  existing budget row and its amount, is as before.
\<close>

theorem set_category_budget_rejects_second:
  assumes chosen: "select_id 0 (id_list (fst (view_expense_categories w)))
                     (snd (view_expense_categories w)) = Returns (Some category_id) w1"
    and amount: "validate_float_input w1 = Returns a w2"
    and existing: "(i, c, b) \<in> set (budgets (db w))" "matches_id c category_id"
  shows "set_category_budget w = Returns () (print (Budget_exists category_id) w2)
         \<and> db (print (Budget_exists category_id) w2) = db w"
proof -
  obtain v w0 where view: "view_expense_categories w = (v, w0)"
    by force
  have sel: "select_id 0 (id_list v) w0 = Returns (Some category_id) w1"
    using chosen view by simp
  have "db w0 = db w"
    using view_expense_categories_db [of w] view by simp
  with select_id_db [OF sel] validate_float_input_db [OF amount] have same: "db w2 = db w"
    by simp
  have "references category_id (i, c, b)"
    using existing(2) by (simp add: references_def)
  with existing(1) same have "filter (references category_id) (budgets (db w2)) \<noteq> []"
    by (auto simp: filter_empty_conv)
  moreover have "truthy v"
    using sel by (rule select_id_truthy)
  ultimately show ?thesis
    using same by (simp add: set_category_budget_def view sel amount and_then_def)
qed

theorem set_category_budget_rejects_second_witness:
  "set_category_budget \<lparr>db = food_store, stdin = [''1'', ''30''], stdout = []\<rparr> =
     Returns () \<lparr>db = food_store, stdin = [],
                  stdout = [Expense_categories_heading, Category_table [(1, ''Food'')], Border,
                            Budget_exists 1]\<rparr>"
proof -
  let ?w = "\<lparr>db = food_store, stdin = [''1'', ''30''], stdout = []\<rparr>"
  let ?out = "[Expense_categories_heading, Category_table [(1, ''Food'')], Border]"
  let ?w1 = "\<lparr>db = food_store, stdin = [''30''], stdout = ?out\<rparr>"
  let ?w2 = "\<lparr>db = food_store, stdin = [], stdout = ?out\<rparr>"
  have chosen: "select_id 0 (id_list (fst (view_expense_categories ?w)))
                  (snd (view_expense_categories ?w)) = Returns (Some 1) ?w1"
    by (simp add: food_store_def view_expense_categories_def Let_def run_defs parse_defs)
  have typed: "py_float ''30'' = Some (Finite 30)"
    by code_simp
  have amount: "validate_float_input ?w1 = Returns (Finite 30) ?w2"
    by (simp add: run_defs typed)
  have existing: "(1, Int_id 1, Some (Finite 15)) \<in> set (budgets (db ?w))"
    "matches_id (Int_id 1) 1"
    by (simp_all add: food_store_def matches_id_def)
  show ?thesis
    using set_category_budget_rejects_second [OF chosen amount existing]
    by (simp add: print_def)
qed

section \<open>Deleting a category\<close>



text \<open>
  Deleting an id that the table does not hold changes nothing, whatever the transactions
  name as their category: the cascade follows the deletion of a row.
\<close>

lemma delete_record_absent:
  assumes "\<not> has_row t record_id (db w)"
  shows "db (delete_record t record_id w) = db w"
proof -
  have keep: "record_id \<notin> set (map fst rows) \<Longrightarrow> filter (\<lambda>r. fst r \<noteq> record_id) rows = rows"
    for rows :: "(int \<times> 'a) list"
    by (induction rows) auto
  from assms show ?thesis
    by (cases t)
      (simp_all add: delete_record_def delete_row_def delete_where_id_def cascade_def
        has_row_def keep)
qed

section \<open>Adding a category twice\<close>

lemma one_row_with_name:
  "distinct (map snd rows) \<Longrightarrow> name \<in> set (map snd rows)
   \<Longrightarrow> length (filter (\<lambda>r. snd r = name) rows) = 1"
proof (induction rows)
  case Nil
  then show ?case by simp
next
  case (Cons r rows)
  show ?case
  proof (cases "snd r = name")
    case True
    with Cons.prems have "filter (\<lambda>r. snd r = name) rows = []"
      by (auto simp: filter_empty_conv image_iff)
    with True show ?thesis by simp
  next
    case False
    with Cons show ?thesis by auto
  qed
qed

lemma no_row_with_name:
  "name \<notin> set (map snd rows) \<Longrightarrow> filter (\<lambda>r. snd r = name) rows = []"
  by (auto simp: filter_empty_conv image_iff)

text \<open>
  Two calls of \<^verbatim>\<open>add_category\<close> on a category table, with names of the same
  title-cased form: the first returns, the second prints the message and changes
  nothing else, and the table then holds exactly one row with the title-cased name.
\<close>

lemma add_category_again:
  assumes unique: "distinct (map snd rows)"
    and same: "title n1 = title n2"
    and table: "t = Expense_category \<and> rows = expense_category (db w) \<and> column = expense_category
                \<or> t = Income_category \<and> rows = income_category (db w) \<and> column = income_category"
  shows "\<exists>w1. add_category t n1 m w = Returns () w1
              \<and> add_category t n2 m w1 = Returns () (prints [m, Border] w1)
              \<and> length (filter (\<lambda>r. snd r = title n1) (column (db w1))) = 1"
proof (cases "title n1 \<in> set (map snd rows)")
  case True
  let ?w1 = "prints [m, Border] w"
  from True table have "add_category t n1 m w = Returns () ?w1"
    by (auto simp: add_category_def Let_def)
  moreover from True table same have "add_category t n2 m ?w1 = Returns () (prints [m, Border] ?w1)"
    by (auto simp: add_category_def Let_def)
  moreover from True unique table
  have "length (filter (\<lambda>r. snd r = title n1) (column (db ?w1))) = 1"
    by (auto simp: one_row_with_name simp del: set_map)
  ultimately show ?thesis
    by blast
next
  case False
  let ?i = "next_id t (map fst rows) (db w)"
  let ?w1 = "prints [Category_added (title n1) t, Border]
               (w\<lparr>db := bump t ?i
                  (if t = Expense_category
                   then (db w)\<lparr>expense_category := rows @ [(?i, title n1)]\<rparr>
                   else (db w)\<lparr>income_category := rows @ [(?i, title n1)]\<rparr>)\<rparr>)"
  from False table have first: "add_category t n1 m w = Returns () ?w1"
    by (auto simp: add_category_def Let_def)
  from table have stored: "column (db ?w1) = rows @ [(?i, title n1)]"
    by (auto simp: bump_def)
  with table same have "add_category t n2 m ?w1 = Returns () (prints [m, Border] ?w1)"
    by (auto simp: add_category_def Let_def)
  moreover from False stored
  have "length (filter (\<lambda>r. snd r = title n1) (column (db ?w1))) = 1"
    by (simp add: no_row_with_name del: set_map)
  ultimately show ?thesis
    using first by blast
qed

text \<open>
  C4. Names are unique in both category tables. \<^verbatim>\<open>add_category\<close> with \<open>n1\<close> returns,
  and a second \<^verbatim>\<open>add_category\<close>, with a name \<open>n2\<close> that has the same title-cased form,
  then prints the message and changes nothing else; the table then holds exactly one
  row with the title-cased name.
\<close>

theorem add_category_twice:
  assumes unique: "distinct (map snd (expense_category (db w)))"
      "distinct (map snd (income_category (db w)))"
    and same: "title n1 = title n2"
  shows "\<exists>we wi.
           add_category Expense_category n1 m w = Returns () we
         \<and> add_category Expense_category n2 m we = Returns () (prints [m, Border] we)
         \<and> length (filter (\<lambda>r. snd r = title n1) (expense_category (db we))) = 1
         \<and> add_category Income_category n1 m w = Returns () wi
         \<and> add_category Income_category n2 m wi = Returns () (prints [m, Border] wi)
         \<and> length (filter (\<lambda>r. snd r = title n1) (income_category (db wi))) = 1"
proof -
  from add_category_again [OF unique(1) same, of Expense_category w expense_category m]
  obtain we where "add_category Expense_category n1 m w = Returns () we"
    "add_category Expense_category n2 m we = Returns () (prints [m, Border] we)"
    "length (filter (\<lambda>r. snd r = title n1) (expense_category (db we))) = 1"
    by auto
  moreover from add_category_again [OF unique(2) same, of Income_category w income_category m]
  obtain wi where "add_category Income_category n1 m w = Returns () wi"
    "add_category Income_category n2 m wi = Returns () (prints [m, Border] wi)"
    "length (filter (\<lambda>r. snd r = title n1) (income_category (db wi))) = 1"
    by auto
  ultimately show ?thesis
    by blast
qed

theorem add_category_twice_witness:
  "add_category Expense_category ''food'' Category_exists
     \<lparr>db = empty_store, stdin = [], stdout = []\<rparr>
   = Returns () \<lparr>db = bump Expense_category 1 (empty_store\<lparr>expense_category := [(1, ''Food'')]\<rparr>),
        stdin = [], stdout = [Category_added ''Food'' Expense_category, Border]\<rparr>
   \<and> add_category Expense_category ''FOOD'' Category_exists
     \<lparr>db = bump Expense_category 1 (empty_store\<lparr>expense_category := [(1, ''Food'')]\<rparr>),
      stdin = [], stdout = [Category_added ''Food'' Expense_category, Border]\<rparr>
   = Returns () \<lparr>db = bump Expense_category 1 (empty_store\<lparr>expense_category := [(1, ''Food'')]\<rparr>),
        stdin = [],
        stdout = [Category_added ''Food'' Expense_category, Border, Category_exists, Border]\<rparr>
   \<and> length (filter (\<lambda>r. snd r = ''Food'')
        (expense_category (bump Expense_category 1 (empty_store\<lparr>expense_category := [(1, ''Food'')]\<rparr>)))) = 1
   \<and> add_category Income_category ''FOOD'' Category_exists
     \<lparr>db = bump Income_category 1 (empty_store\<lparr>income_category := [(1, ''Food'')]\<rparr>),
      stdin = [], stdout = [Category_added ''Food'' Income_category, Border]\<rparr>
   = Returns () \<lparr>db = bump Income_category 1 (empty_store\<lparr>income_category := [(1, ''Food'')]\<rparr>),
        stdin = [],
        stdout = [Category_added ''Food'' Income_category, Border, Category_exists, Border]\<rparr>
   \<and> length (filter (\<lambda>r. snd r = ''Food'')
        (income_category (bump Income_category 1 (empty_store\<lparr>income_category := [(1, ''Food'')]\<rparr>)))) = 1"
proof -
  let ?w = "\<lparr>db = empty_store, stdin = [], stdout = []\<rparr>"
  let ?we = "\<lparr>db = bump Expense_category 1 (empty_store\<lparr>expense_category := [(1, ''Food'')]\<rparr>),
              stdin = [], stdout = [Category_added ''Food'' Expense_category, Border]\<rparr>"
  let ?wi = "\<lparr>db = bump Income_category 1 (empty_store\<lparr>income_category := [(1, ''Food'')]\<rparr>),
              stdin = [], stdout = [Category_added ''Food'' Income_category, Border]\<rparr>"
  have unique: "distinct (map snd (expense_category (db ?w)))"
      "distinct (map snd (income_category (db ?w)))"
    by (simp_all add: empty_store_def)
  have "title ''food'' = ''Food''"
    by code_simp
  moreover have "title ''FOOD'' = ''Food''"
    by code_simp
  ultimately have food: "title ''food'' = ''Food''" "title ''FOOD'' = ''Food''"
    by simp_all
  then have same: "title ''food'' = title ''FOOD''"
    by simp
  have first: "add_category Expense_category ''food'' Category_exists ?w = Returns () ?we"
      "add_category Income_category ''food'' Category_exists ?w = Returns () ?wi"
    by (simp_all add: add_category_def Let_def food next_id_def prints_def empty_store_def)
  show ?thesis
    using add_category_twice [OF unique same, of Category_exists] first
    by (auto simp: food prints_def)
qed

section \<open>Listing transactions\<close>

text \<open>
  The update menu writes whatever is typed into \<^verbatim>\<open>category_id\<close>, so a transaction
  can come to name a category that does not exist.
\<close>

lemma update_expense_orphans:
  "update_expense \<lparr>db = food_store, stdin = [''2'', ''1'', ''7''], stdout = []\<rparr> =
     Returns () \<lparr>db = orphan_expense_store, stdin = [],
                  stdout = [Expenses_heading,
                            Transaction_table [(1, ''Food'', Some (Finite (25 / 2))),
                                               (2, ''Food'', Some (Finite (15 / 2)))],
                            Total_expenses (Finite 20), Border, Which_field,
                            Field_option 1 Category_id, Field_option 2 Amount,
                            Field_updated Category_id, Border]\<rparr>"
proof -
  have total: "py_sum [Some (Finite (25 / 2)), Some (Finite (15 / 2))] = Inr (Finite 20)"
    by code_simp
  have typed: "integer_affinity ''7'' = Int_id 7"
    by code_simp
  show ?thesis
    by (simp add: update_expense_def view_expenses_def fetch_expenses_def join_categories_def
        matches_id_def total update_record_def field_menu_def mentions_amount_def
        perform_update_def update_row_def set_category_id_def to_int_column_def typed
        orphan_expense_store_def food_store_def empty_store_def run_defs parse_defs)
qed

lemma update_income_orphans:
  "update_income \<lparr>db = salary_store, stdin = [''2'', ''1'', ''7''], stdout = []\<rparr> =
     Returns () \<lparr>db = orphan_income_store, stdin = [],
                  stdout = [Income_heading,
                            Transaction_table [(1, ''Salary'', Some (Finite 10)),
                                               (2, ''Salary'', Some (Finite 5))],
                            Total_income (Finite 15), Border, Which_field,
                            Field_option 1 Category_id, Field_option 2 Amount,
                            Field_updated Category_id, Border]\<rparr>"
proof -
  have total: "py_sum [Some (Finite 10), Some (Finite 5)] = Inr (Finite 15)"
    by code_simp
  have typed: "integer_affinity ''7'' = Int_id 7"
    by code_simp
  show ?thesis
    by (simp add: update_income_def view_income_def fetch_income_def join_categories_def
        matches_id_def total update_record_def field_menu_def mentions_amount_def
        perform_update_def update_row_def set_category_id_def to_int_column_def typed
        orphan_income_store_def salary_store_def empty_store_def run_defs parse_defs)
qed


lemma no_category:
  "\<not> has_category cats c \<Longrightarrow> filter (\<lambda>(k, name). matches_id c k) cats = []"
  by (simp add: has_category_def)


lemma join_without_orphan:
  assumes "\<not> has_category cats (fst (snd r))"
  shows "join_categories (removeAll r rows) cats = join_categories rows cats"
proof (induction rows)
  case Nil
  then show ?case by simp
next
  case (Cons x rows)
  show ?case
  proof (cases "x = r")
    case True
    obtain i c a where r: "r = (i, c, a)"
      by (cases r)
    with assms have "filter (\<lambda>(k, name). matches_id c k) cats = []"
      by (intro no_category) simp
    with True r Cons show ?thesis
      by (simp add: join_categories_def)
  next
    case False
    with Cons show ?thesis
      by (simp add: join_categories_def)
  qed
qed

lemma join_row:
  assumes "(i, name, a) \<in> set (join_categories rows cats)"
  shows "\<exists>c. (i, c, a) \<in> set rows \<and> has_category cats c"
  using assms by (auto simp: join_categories_def has_category_def filter_empty_conv)


text \<open>
  C10. An expense row whose category id is the id of no expense category does not show
  in \<^verbatim>\<open>view_expenses\<close>: how the call ends, the ids it returns and everything it prints,
  the table and the total, are what they would be if the row were not stored, and,
  expense ids being a primary key, its id is neither returned nor in the table.
\<close>

theorem view_expenses_excludes_orphans:
  assumes row: "r \<in> set (expenses (db w))"
    and orphan: "\<not> has_category (expense_category (db w)) (fst (snd r))"
    and keys: "distinct (map fst (expenses (db w)))"
    and without: "w' = w\<lparr>db := (db w)\<lparr>expenses := removeAll r (expenses (db w))\<rparr>\<rparr>"
  shows "shown (view_expenses w) = shown (view_expenses w')
         \<and> fst r \<notin> set (returned (view_expenses w))
         \<and> fst r \<notin> set (map fst (fetch_expenses (db w)))"
proof -
  have same: "fetch_expenses ((db w)\<lparr>expenses := removeAll r (expenses (db w))\<rparr>)
              = fetch_expenses (db w)"
    using join_without_orphan [OF orphan] by (simp add: fetch_expenses_def)
  have absent: "fst r \<notin> set (map fst (fetch_expenses (db w)))"
  proof
    assume "fst r \<in> set (map fst (fetch_expenses (db w)))"
    then obtain name a
      where "(fst r, name, a) \<in> set (join_categories (expenses (db w)) (expense_category (db w)))"
      by (auto simp: fetch_expenses_def)
    from join_row [OF this] obtain c
      where stored: "(fst r, c, a) \<in> set (expenses (db w))"
        and linked: "has_category (expense_category (db w)) c"
      by blast
    from keys row stored have "r = (fst r, c, a)"
      by (metis eq_key_imp_eq_value prod.collapse)
    then have "fst (snd r) = c"
      by (metis fst_conv snd_conv)
    with orphan linked show False
      by simp
  qed
  have ids: "set (returned (view_expenses w)) \<subseteq> set (map fst (fetch_expenses (db w)))"
    by (auto simp: view_expenses_def Let_def returned_def split: sum.splits)
  have "shown (view_expenses w) = shown (view_expenses w')"
    by (simp add: view_expenses_def Let_def without same shown_def prints_def split: sum.splits)
  then show ?thesis
    using absent ids by blast
qed

theorem view_expenses_excludes_orphans_witness:
  "shown (view_expenses \<lparr>db = orphan_expense_store, stdin = [], stdout = []\<rparr>) =
     (Inr (PyList [1]),
      [Expenses_heading, Transaction_table [(1, ''Food'', Some (Finite (25 / 2)))],
       Total_expenses (Finite (25 / 2)), Border])
   \<and> 2 \<notin> set (returned (view_expenses \<lparr>db = orphan_expense_store, stdin = [], stdout = []\<rparr>))"
proof -
  let ?w = "\<lparr>db = orphan_expense_store, stdin = [], stdout = []\<rparr>"
  let ?r = "(2 :: int, Int_id 7, Some (Finite (15 / 2)))"
  have row: "?r \<in> set (expenses (db ?w))"
    by (simp add: orphan_expense_store_def)
  have orphan: "\<not> has_category (expense_category (db ?w)) (fst (snd ?r))"
    by (simp add: orphan_expense_store_def food_store_def has_category_def matches_id_def)
  have keys: "distinct (map fst (expenses (db ?w)))"
    by (simp add: orphan_expense_store_def)
  have total: "py_sum [Some (Finite (25 / 2))] = Inr (Finite (25 / 2))"
    by code_simp
  have listing:
    "shown (view_expenses (?w\<lparr>db := (db ?w)\<lparr>expenses := removeAll ?r (expenses (db ?w))\<rparr>\<rparr>))
      = (Inr (PyList [1]),
         [Expenses_heading, Transaction_table [(1, ''Food'', Some (Finite (25 / 2)))],
          Total_expenses (Finite (25 / 2)), Border])"
    by (simp add: view_expenses_def fetch_expenses_def join_categories_def prints_def shown_def
        matches_id_def total orphan_expense_store_def food_store_def)
  from view_expenses_excludes_orphans [OF row orphan keys refl] listing
  show ?thesis
    by simp
qed




text \<open>
  An amount typed as \<^verbatim>\<open>nan\<close> is stored as NULL, and from then on \<^verbatim>\<open>view_income\<close>
  prints the table and raises.
\<close>

lemma view_income_null_amount:
  "add_income \<lparr>db = salary_store, stdin = [''1'', ''nan''], stdout = []\<rparr> =
     Returns ()
       \<lparr>db = bump Income 3 (salary_store\<lparr>income :=
                [(1, Int_id 1, Some (Finite 10)), (2, Int_id 1, Some (Finite 5)),
                 (3, Int_id 1, None)]\<rparr>),
        stdin = [],
        stdout = [Income_categories_heading, Category_table [(1, ''Salary'')], Border,
                  Record_added Income, Border]\<rparr>
   \<and> view_income
       \<lparr>db = bump Income 3 (salary_store\<lparr>income :=
                [(1, Int_id 1, Some (Finite 10)), (2, Int_id 1, Some (Finite 5)),
                 (3, Int_id 1, None)]\<rparr>),
        stdin = [], stdout = []\<rparr> =
     Raises TypeError
       \<lparr>db = bump Income 3 (salary_store\<lparr>income :=
                [(1, Int_id 1, Some (Finite 10)), (2, Int_id 1, Some (Finite 5)),
                 (3, Int_id 1, None)]\<rparr>),
        stdin = [],
        stdout = [Income_heading,
                  Transaction_table [(1, ''Salary'', Some (Finite 10)),
                                     (2, ''Salary'', Some (Finite 5)), (3, ''Salary'', None)]]\<rparr>"
proof -
  have typed: "py_float ''nan'' = Some NaN"
    by code_simp
  have total: "py_sum [Some (Finite 10), Some (Finite 5), None] = Inl TypeError"
    by code_simp
  show ?thesis
    by (simp add: add_income_def view_income_categories_def add_record_def insert_row_def
        next_id_def bind_float_def typed view_income_def fetch_income_def join_categories_def
        matches_id_def total bump_def salary_store_def empty_store_def run_defs parse_defs)
qed

section \<open>Retry bounds\<close>

text \<open>
  The loop with the counter gives up at the third id that is not in the list, whatever
  follows on the terminal.
\<close>

lemma select_id_gives_up:
  assumes "stdin w = l1 # l2 # l3 # rest"
    and "py_int l1 = Some x1" "py_int l2 = Some x2" "py_int l3 = Some x3"
    and "x1 \<notin> set ids" "x2 \<notin> set ids" "x3 \<notin> set ids"
  shows "select_id 0 ids w =
           Returns None (w\<lparr>stdin := rest,
                  stdout := stdout w @ [Invalid_range ids, Invalid_range ids, Invalid_range ids,
                                        Too_many_attempts, Border]\<rparr>)"
  using assms by (simp add: run_defs)

text \<open>
  The sixteen other actions that ask for an id run the loop with the counter and return
  as soon as it gives up.
\<close>

lemma bounded_actions_give_up:
  shows
    "truthy (fst (view_expense_categories w)) \<Longrightarrow>
     select_id 0 (id_list (fst (view_expense_categories w))) (snd (view_expense_categories w))
       = Returns None w1
     \<Longrightarrow> add_expense w = Returns () w1"
    "truthy (fst (view_expense_categories w)) \<Longrightarrow>
     select_id 0 (id_list (fst (view_expense_categories w))) (snd (view_expense_categories w))
       = Returns None w1
     \<Longrightarrow> view_expenses_by_category w = Returns () w1"
    "view_expenses w = Returns v w0 \<Longrightarrow> truthy v \<Longrightarrow>
     select_id 0 (id_list v) w0 = Returns None w1
     \<Longrightarrow> update_expense w = Returns () w1"
    "view_expenses w = Returns v w0 \<Longrightarrow> truthy v \<Longrightarrow>
     select_id 0 (id_list v) w0 = Returns None w1
     \<Longrightarrow> delete_expense w = Returns () w1"
    "truthy (fst (view_income_categories w)) \<Longrightarrow>
     select_id 0 (id_list (fst (view_income_categories w))) (snd (view_income_categories w))
       = Returns None w1
     \<Longrightarrow> delete_income_category w = Returns () w1"
    "truthy (fst (view_income_categories w)) \<Longrightarrow>
     select_id 0 (id_list (fst (view_income_categories w))) (snd (view_income_categories w))
       = Returns None w1
     \<Longrightarrow> add_income w = Returns () w1"
    "truthy (fst (view_income_categories w)) \<Longrightarrow>
     select_id 0 (id_list (fst (view_income_categories w))) (snd (view_income_categories w))
       = Returns None w1
     \<Longrightarrow> view_income_by_category w = Returns () w1"
    "view_income w = Returns v w0 \<Longrightarrow> truthy v \<Longrightarrow>
     select_id 0 (id_list v) w0 = Returns None w1
     \<Longrightarrow> update_income w = Returns () w1"
    "view_income w = Returns v w0 \<Longrightarrow> truthy v \<Longrightarrow>
     select_id 0 (id_list v) w0 = Returns None w1
     \<Longrightarrow> delete_income w = Returns () w1"
    "truthy (fst (view_expense_categories w)) \<Longrightarrow>
     select_id 0 (id_list (fst (view_expense_categories w))) (snd (view_expense_categories w))
       = Returns None w1
     \<Longrightarrow> set_category_budget w = Returns () w1"
    "truthy (fst (view_all_budgets w)) \<Longrightarrow>
     select_id 0 (id_list (fst (view_all_budgets w))) (snd (view_all_budgets w)) = Returns None w1
     \<Longrightarrow> view_category_budget w = Returns () w1"
    "truthy (fst (view_all_budgets w)) \<Longrightarrow>
     select_id 0 (id_list (fst (view_all_budgets w))) (snd (view_all_budgets w)) = Returns None w1
     \<Longrightarrow> update_category_budget w = Returns () w1"
    "select_id 0 (id_list (fst (view_all_budgets w))) (snd (view_all_budgets w)) = Returns None w1
     \<Longrightarrow> delete_category_budget w = Returns () w1"
    "truthy (fst (view_current_goals w)) \<Longrightarrow>
     select_id 0 (id_list (fst (view_current_goals w))) (snd (view_current_goals w))
       = Returns None w1
     \<Longrightarrow> view_goal_progress w = Returns () w1"
    "truthy (fst (view_current_goals w)) \<Longrightarrow>
     select_id 0 (id_list (fst (view_current_goals w))) (snd (view_current_goals w))
       = Returns None w1
     \<Longrightarrow> update_goal w = Returns () w1"
    "truthy (fst (view_current_goals w)) \<Longrightarrow>
     select_id 0 (id_list (fst (view_current_goals w))) (snd (view_current_goals w))
       = Returns None w1
     \<Longrightarrow> delete_goal w = Returns () w1"
  by (simp_all add: add_expense_def view_expenses_by_category_def update_expense_def
      delete_expense_def delete_income_category_def add_income_def view_income_by_category_def
      update_income_def delete_income_def set_category_budget_def view_category_budget_def
      update_category_budget_def delete_category_budget_def view_goal_progress_def
      update_goal_def delete_goal_def and_then_def case_prod_beta)

text \<open>
  The loop of \<^verbatim>\<open>delete_expense_category\<close> goes on after any number of ids that are not
  in the list.
\<close>

lemma select_id_unbounded_goes_on:
  assumes "py_int l = Some x" "x \<notin> set ids" "py_int g = Some y" "y \<in> set ids"
  shows "stdin w = replicate n l @ g # rest \<Longrightarrow>
         select_id_unbounded ids w =
           Returns y (w\<lparr>stdin := rest,
                  stdout := stdout w @ replicate n (Invalid_range ids)\<rparr>)"
proof (induction n arbitrary: w)
  case 0
  with assms show ?case
    by (simp add: run_defs)
next
  case (Suc n)
  let ?w = "print (Invalid_range ids) (w\<lparr>stdin := replicate n l @ g # rest\<rparr>)"
  have "select_id_unbounded ids w = select_id_unbounded ids ?w"
    using Suc.prems assms
    by (subst select_id_unbounded.simps)
      (simp add: validate_int_input.simps [of w] input_def validate_range_def)
  also have "\<dots> = Returns y (?w\<lparr>stdin := rest,
      stdout := stdout ?w @ replicate n (Invalid_range ids)\<rparr>)"
    by (rule Suc.IH) (simp add: print_def)
  finally show ?case
    by (simp add: print_def replicate_app_Cons_same)
qed

text \<open>
  C7 fails for \<^verbatim>\<open>delete_expense_category\<close>. With one expense category, id 1, and the
  lines 7, 8, 9, 10 and 1 typed, it asks a fifth time and deletes category 1 with its
  expenses and budget. \<^verbatim>\<open>delete_income_category\<close>, on the same lines and one income
  category, stops after the third and deletes nothing.
\<close>

theorem delete_expense_category_keeps_asking:
  "delete_expense_category
     \<lparr>db = food_store, stdin = [''7'', ''8'', ''9'', ''10'', ''1''], stdout = []\<rparr> =
     Returns () \<lparr>db = food_store\<lparr>expense_category := [], expenses := [], budgets := []\<rparr>,
                  stdin = [],
                  stdout = [Expense_categories_heading, Category_table [(1, ''Food'')], Border,
                            Invalid_range [1], Invalid_range [1], Invalid_range [1],
                            Invalid_range [1], Record_deleted Expense_category, Border]\<rparr>
   \<and> delete_income_category
     \<lparr>db = salary_store, stdin = [''7'', ''8'', ''9'', ''10'', ''1''], stdout = []\<rparr> =
     Returns () \<lparr>db = salary_store, stdin = [''10'', ''1''],
                  stdout = [Income_categories_heading, Category_table [(1, ''Salary'')], Border,
                            Invalid_range [1], Invalid_range [1], Invalid_range [1],
                            Too_many_attempts, Border]\<rparr>"
  by (simp add: delete_expense_category_def view_expense_categories_def
      delete_income_category_def view_income_categories_def delete_defs
      food_store_def salary_store_def empty_store_def run_defs parse_defs)

section \<open>Expenses against income\<close>

text \<open>
  C9 fails for the category listings. With no category stored,
  \<^verbatim>\<open>view_expense_categories\<close> returns the empty list and \<^verbatim>\<open>view_income_categories\<close>
  returns \<^verbatim>\<open>None\<close>; both print their message and the border.
\<close>

theorem category_listings_differ_when_empty:
  "view_expense_categories \<lparr>db = empty_store, stdin = [], stdout = []\<rparr> =
     (PyList [], \<lparr>db = empty_store, stdin = [], stdout = [No_expense_categories, Border]\<rparr>)
   \<and> view_income_categories \<lparr>db = empty_store, stdin = [], stdout = []\<rparr> =
     (PyNone, \<lparr>db = empty_store, stdin = [], stdout = [No_income_categories, Border]\<rparr>)"
  by (simp add: view_expense_categories_def view_income_categories_def prints_def empty_store_def)

end
